theory Spec2Isabelle
  imports Main "HOL-Library.Multiset" "HOL-Library.Sublist"
begin

section \<open>JavaScript values and built-ins used by the two source files\<close>

text \<open>
  A JavaScript number is modelled by an integer or by \<open>NaN\<close>; fractions and infinities are
  not modelled. A string is a list of characters, each a code unit below 256.

  The code computes in doubles. Every integer of magnitude up to \<open>2^53\<close> is a double, and a
  sum, difference or product of such integers is computed exactly when its value is again
  in that range; a template literal prints an integer below \<open>10^21\<close> in decimal digits. The
  sources double an impact, subtract an effort, add 1 and subtract two such scores: on
  numbers of magnitude up to \<open>2^50\<close> every one of these values stays below \<open>2^53\<close>. The
  integer arithmetic and the decimal printing of this model are those of the code on that
  range, and the statements about scores and printed numbers of posted data are made for it.
\<close>

datatype jsnum = NaN | Fin int

definition exact_number :: "int \<Rightarrow> bool" where
  "exact_number n = (- (2 ^ 50) \<le> n \<and> n \<le> 2 ^ 50)"

text \<open>\<open>x < c\<close> for a number \<open>x\<close> and a numeric literal \<open>c\<close>: false when \<open>x\<close> is NaN.\<close>

fun js_less :: "jsnum \<Rightarrow> int \<Rightarrow> bool" where
  "js_less NaN c = False"
| "js_less (Fin x) c = (x < c)"

text \<open>The truth value of an optional string and of an optional boolean, as
  \<open>t.due ? a : b\<close>, \<open>if (note)\<close>, \<open>!apiKey\<close> and \<open>!t.done\<close> take it: \<open>undefined\<close> and the
  empty string are falsy.\<close>

fun truthy_str :: "string option \<Rightarrow> bool" where
  "truthy_str None = False"
| "truthy_str (Some s) = (s \<noteq> [])"

fun truthy_bool :: "bool option \<Rightarrow> bool" where
  "truthy_bool None = False"
| "truthy_bool (Some b) = b"

text \<open>Decimal printing of an integer, as a template literal prints a number.\<close>

definition digit_char :: "nat \<Rightarrow> char" where
  "digit_char d = ''0123456789'' ! d"

function show_nat :: "nat \<Rightarrow> string" where
  "show_nat n = (if n < 10 then [digit_char n] else show_nat (n div 10) @ [digit_char (n mod 10)])"
  by pat_completeness auto
termination
  by (relation "measure (\<lambda>n. n)") auto

definition show_int :: "int \<Rightarrow> string" where
  "show_int i = (if i < 0 then ''-'' @ show_nat (nat (- i)) else show_nat (nat i))"

fun show_num :: "jsnum \<Rightarrow> string" where
  "show_num NaN = ''NaN''"
| "show_num (Fin i) = show_int i"

text \<open>\<open>xs.join(sep)\<close> on a list of strings.\<close>

fun join :: "string \<Rightarrow> string list \<Rightarrow> string" where
  "join sep [] = []"
| "join sep [x] = x"
| "join sep (x # y # ys) = x @ sep @ join sep (y # ys)"

text \<open>\<open>s.startsWith(p)\<close> and \<open>s.trim()\<close>. The white space and line terminators of
  JavaScript among the code units below 256 are tab, line feed, vertical tab, form feed,
  carriage return, space and the no-break space U+00A0.\<close>

definition startsWith :: "string \<Rightarrow> string \<Rightarrow> bool" where
  "startsWith s p = (take (length p) s = p)"

definition is_space :: "char \<Rightarrow> bool" where
  "is_space c = (c \<in> set [CHR 0x09, CHR 0x0A, CHR 0x0B, CHR 0x0C, CHR 0x0D, CHR '' '', CHR 0xA0])"

definition trim :: "string \<Rightarrow> string" where
  "trim s = rev (dropWhile is_space (rev (dropWhile is_space s)))"

text \<open>
  \<open>Array.prototype.sort(cmp)\<close> is a stable sort: the result is ordered by \<open>cmp\<close> and
  elements that compare equal keep their order. It is modelled by insertion from the
  right, which puts an element before the first element it is not greater than.
\<close>

fun insert_by :: "('a \<Rightarrow> 'a \<Rightarrow> int) \<Rightarrow> 'a \<Rightarrow> 'a list \<Rightarrow> 'a list" where
  "insert_by cmp x [] = [x]"
| "insert_by cmp x (y # ys) = (if cmp x y \<le> 0 then x # y # ys else y # insert_by cmp x ys)"

definition js_sort :: "('a \<Rightarrow> 'a \<Rightarrow> int) \<Rightarrow> 'a list \<Rightarrow> 'a list" where
  "js_sort cmp xs = foldr (insert_by cmp) xs []"

section \<open>The client: tasks, the priority score and the prioritized list\<close>

text \<open>The type \<open>Task\<close>. The fields \<open>id\<close> and \<open>done\<close> are named \<open>task_id\<close> and
  \<open>task_done\<close> here; \<open>due\<close> and \<open>done\<close> are optional in the source.\<close>

record task =
  task_id :: string
  title :: string
  effort :: int
  impact :: int
  due :: "string option"
  task_done :: "bool option"

definition exact_task :: "task \<Rightarrow> bool" where
  "exact_task t = (exact_number (impact t) \<and> exact_number (effort t))"

text \<open>The score computed inside the comparator of \<open>prioritized\<close>
  (\<open>a.impact * 2 - a.effort + (a.due ? 1 : 0)\<close>).\<close>

definition score :: "task \<Rightarrow> int" where
  "score a = impact a * 2 - effort a + (if truthy_str (due a) then 1 else 0)"

definition prioritized :: "task list \<Rightarrow> task list" where
  "prioritized ts = js_sort (\<lambda>a b. score b - score a) ts"

section \<open>The client: form state, addTask and toggleDone\<close>

text \<open>The state of \<open>HomePage\<close> that the task operations read and write: the task list and
  the four form fields. The identifier that \<open>crypto.randomUUID()\<close> returns is an argument
  of \<open>addTask\<close>.\<close>

record client =
  tasks :: "task list"
  taskTitle :: string
  taskEffort :: int
  taskImpact :: int
  taskDue :: string

definition initial_client :: client where
  "initial_client = \<lparr>tasks = [], taskTitle = [], taskEffort = 2, taskImpact = 3, taskDue = []\<rparr>"

definition addTask :: "string \<Rightarrow> client \<Rightarrow> client" where
  "addTask uuid st =
     (if trim (taskTitle st) = [] then st
      else st\<lparr>tasks := tasks st @
                 [\<lparr>task_id = uuid, title = trim (taskTitle st), effort = taskEffort st,
                   impact = taskImpact st,
                   due = (if taskDue st = [] then None else Some (taskDue st)),
                   task_done = Some False\<rparr>],
               taskTitle := [], taskEffort := 2, taskImpact := 3, taskDue := []\<rparr>)"

definition toggleDone :: "string \<Rightarrow> client \<Rightarrow> client" where
  "toggleDone i st =
     st\<lparr>tasks := map (\<lambda>t. if task_id t = i
                           then t\<lparr>task_done := Some (\<not> truthy_bool (task_done t))\<rparr>
                           else t) (tasks st)\<rparr>"

text \<open>The handlers of the form: the four \<open>onChange\<close> setters, the Add button and the
  checkbox of a task. The two range inputs hand \<open>Number(e.target.value)\<close> to their
  setters.\<close>

datatype event =
    SetTaskTitle string
  | SetTaskImpact int
  | SetTaskEffort int
  | SetTaskDue string
  | AddTask string
  | ToggleDone string

fun handle :: "client \<Rightarrow> event \<Rightarrow> client" where
  "handle st (SetTaskTitle s) = st\<lparr>taskTitle := s\<rparr>"
| "handle st (SetTaskImpact n) = st\<lparr>taskImpact := n\<rparr>"
| "handle st (SetTaskEffort n) = st\<lparr>taskEffort := n\<rparr>"
| "handle st (SetTaskDue s) = st\<lparr>taskDue := s\<rparr>"
| "handle st (AddTask uuid) = addTask uuid st"
| "handle st (ToggleDone i) = toggleDone i st"

definition run :: "event list \<Rightarrow> client" where
  "run es = foldl handle initial_client es"

text \<open>A range input with \<open>min={1} max={5}\<close> only reports values from 1 to 5.\<close>

fun from_range_input :: "event \<Rightarrow> bool" where
  "from_range_input (SetTaskImpact n) = (1 \<le> n \<and> n \<le> 5)"
| "from_range_input (SetTaskEffort n) = (1 \<le> n \<and> n \<le> 5)"
| "from_range_input _ = True"

definition in_1_5 :: "task \<Rightarrow> bool" where
  "in_1_5 t = (1 \<le> effort t \<and> effort t \<le> 5 \<and> 1 \<le> impact t \<and> impact t \<le> 5)"

text \<open>The invariant of the form: the stored tasks and the two range fields are within 1 to 5.\<close>

definition form_ok :: "client \<Rightarrow> bool" where
  "form_ok st = (list_all in_1_5 (tasks st) \<and> 1 \<le> taskEffort st \<and> taskEffort st \<le> 5
     \<and> 1 \<le> taskImpact st \<and> taskImpact st \<le> 5)"

section \<open>The client: the markdown renderer\<close>

text \<open>\<open>s.replaceAll(p, r)\<close> for a pattern \<open>p\<close> of one character and a replacement \<open>r\<close>
  without \<open>$\<close>: every occurrence of the character is replaced by \<open>r\<close>.\<close>

definition replaceAll :: "string \<Rightarrow> char \<Rightarrow> string \<Rightarrow> string" where
  "replaceAll s p r = concat (map (\<lambda>c. if c = p then r else [c]) s)"

definition escapeHtml :: "string \<Rightarrow> string" where
  "escapeHtml s =
     replaceAll (replaceAll (replaceAll (replaceAll (replaceAll s
       (CHR ''&'') ''&amp;'')
       (CHR ''<'') ''&lt;'')
       (CHR ''>'') ''&gt;'')
       (CHR 0x22) ''&quot;'')
       (CHR 0x27) ''&#039;''"

text \<open>\<open>content.split(/\r?\n/)\<close>: at each position the pattern matches a line feed, or a
  carriage return followed by a line feed.\<close>

definition cons_first :: "char \<Rightarrow> string list \<Rightarrow> string list" where
  "cons_first c ls = (case ls of [] \<Rightarrow> [[c]] | l # rest \<Rightarrow> (c # l) # rest)"

fun split_lines :: "string \<Rightarrow> string list" where
  "split_lines [] = [[]]"
| "split_lines [c] = (if c = CHR 0x0A then [[], []] else [[c]])"
| "split_lines (c # d # cs) =
     (if c = CHR 0x0A then [] # split_lines (d # cs)
      else if c = CHR 0x0D \<and> d = CHR 0x0A then [] # split_lines cs
      else cons_first c (split_lines (d # cs)))"

text \<open>The body of the first loop of \<open>Markdown\<close>: the fragment of one line.\<close>

definition render_line :: "string \<Rightarrow> string" where
  "render_line line =
     (if startsWith line ''### '' then ''<h3>'' @ escapeHtml (drop 4 line) @ ''</h3>''
      else if startsWith line ''## '' then ''<h2>'' @ escapeHtml (drop 3 line) @ ''</h2>''
      else if startsWith line ''# '' then ''<h1>'' @ escapeHtml (drop 2 line) @ ''</h1>''
      else if startsWith line ''- '' then ''<li>'' @ escapeHtml (drop 2 line) @ ''</li>''
      else if trim line = [] then ''<br/>''
      else ''<p>'' @ escapeHtml line @ ''</p>'')"

text \<open>The second loop: the state is the pair of \<open>merged\<close> and \<open>buffer\<close>.\<close>

definition flush :: "string list \<times> string list \<Rightarrow> string list \<times> string list" where
  "flush mb =
     (case mb of (merged, buffer) \<Rightarrow>
        if length buffer > 0 then (merged @ [''<ul>'' @ concat buffer @ ''</ul>''], [])
        else (merged, buffer))"

definition merge_step :: "string list \<times> string list \<Rightarrow> string \<Rightarrow> string list \<times> string list" where
  "merge_step mb frag =
     (case mb of (merged, buffer) \<Rightarrow>
        if startsWith frag ''<li>'' then (merged, buffer @ [frag])
        else (case flush (merged, buffer) of (m, b) \<Rightarrow> (m @ [frag], b)))"

definition merge_fragments :: "string list \<Rightarrow> string list" where
  "merge_fragments out = fst (flush (foldl merge_step ([], []) out))"

definition html_of_lines :: "string list \<Rightarrow> string" where
  "html_of_lines ls = concat (merge_fragments (map render_line ls))"

definition Markdown :: "string \<Rightarrow> string" where
  "Markdown content = html_of_lines (split_lines content)"

text \<open>The escaping rule of the specification, character by character.\<close>

definition entity_of :: "char \<Rightarrow> string" where
  "entity_of c =
     (if c = CHR ''&'' then ''&amp;''
      else if c = CHR ''<'' then ''&lt;''
      else if c = CHR ''>'' then ''&gt;''
      else if c = CHR 0x22 then ''&quot;''
      else if c = CHR 0x27 then ''&#039;''
      else [c])"

text \<open>What the second loop computes, by recursion over the fragments that are left, with
  the buffer as an argument.\<close>

definition wrap_ul :: "string list \<Rightarrow> string list" where
  "wrap_ul buffer = (if buffer = [] then [] else [''<ul>'' @ concat buffer @ ''</ul>''])"

fun group_items :: "string list \<Rightarrow> string list \<Rightarrow> string list" where
  "group_items buffer [] = wrap_ul buffer"
| "group_items buffer (frag # out) =
     (if startsWith frag ''<li>'' then group_items (buffer @ [frag]) out
      else wrap_ul buffer @ frag # group_items [] out)"

text \<open>Every \<open><\<close> of a string is followed by the first character of a tag of the renderer
  (of its name, or \<open>/\<close>), and the string does not end in \<open><\<close>.\<close>

fun tags_only :: "string \<Rightarrow> bool" where
  "tags_only [] = True"
| "tags_only [a] = (a \<noteq> CHR ''<'')"
| "tags_only (a # b # r) = ((a = CHR ''<'' \<longrightarrow> b \<in> set ''h/lbpu'') \<and> tags_only (b # r))"

section \<open>The server: request data\<close>

text \<open>
  The handler casts the parsed body without checking it. The values of a numeric health
  field that the model covers are: absent (\<open>undefined\<close>), \<open>null\<close>, a number, a boolean, and
  the empty object \<open>{}\<close>. Strings, arrays and other objects in a numeric field are not
  modelled (\<open>Number\<close> parses a string, and gives 0 for the empty string and the empty
  array). The mood is absent, \<open>null\<close> or a string.
\<close>

datatype numfield = NUndefined | NNull | NNum int | NBool bool | NObject

datatype strfield = SUndefined | SNull | SStr string

record health =
  sleepHours :: numfield
  waterCups :: numfield
  steps :: numfield
  breaksPerHour :: numfield
  mood :: strfield

text \<open>\<open>v ?? d\<close>, \<open>Number(v)\<close> and \<open>String(v)\<close> on these values.\<close>

fun nullish_num :: "numfield \<Rightarrow> numfield \<Rightarrow> numfield" where
  "nullish_num NUndefined d = d"
| "nullish_num NNull d = d"
| "nullish_num v d = v"

fun Number :: "numfield \<Rightarrow> jsnum" where
  "Number NUndefined = NaN"
| "Number NNull = Fin 0"
| "Number (NNum n) = Fin n"
| "Number (NBool b) = Fin (if b then 1 else 0)"
| "Number NObject = NaN"

fun nullish_str :: "strfield \<Rightarrow> strfield \<Rightarrow> strfield" where
  "nullish_str SUndefined d = d"
| "nullish_str SNull d = d"
| "nullish_str v d = v"

fun String :: "strfield \<Rightarrow> string" where
  "String SUndefined = ''undefined''"
| "String SNull = ''null''"
| "String (SStr s) = s"

text \<open>A field that is missing: absent or \<open>null\<close>.\<close>

fun absent_num :: "numfield \<Rightarrow> bool" where
  "absent_num NUndefined = True"
| "absent_num NNull = True"
| "absent_num v = False"

fun absent_str :: "strfield \<Rightarrow> bool" where
  "absent_str SUndefined = True"
| "absent_str SNull = True"
| "absent_str v = False"

text \<open>The numbers of the health metrics are in the exact range.\<close>

fun exact_field :: "numfield \<Rightarrow> bool" where
  "exact_field (NNum n) = exact_number n"
| "exact_field v = True"

definition exact_health :: "health \<Rightarrow> bool" where
  "exact_health hl = (exact_field (sleepHours hl) \<and> exact_field (waterCups hl)
     \<and> exact_field (steps hl) \<and> exact_field (breaksPerHour hl))"

section \<open>The server: buildPrompt\<close>

definition task_line :: "nat \<Rightarrow> task \<Rightarrow> string" where
  "task_line i t =
     show_nat (i + 1) @ ''. '' @ title t @ '' (impact '' @ show_int (impact t) @ ''/5, effort ''
       @ show_int (effort t) @ ''/5''
       @ (case due t of None \<Rightarrow> [] | Some d \<Rightarrow> if d \<noteq> [] then '', due '' @ d else [])
       @ (if truthy_bool (task_done t) then '', marked done'' else [])
       @ '')''"

definition taskLines :: "task list \<Rightarrow> string" where
  "taskLines ts = join [CHR 0x0A] (map (\<lambda>(i, t). task_line i t) (enumerate 0 (take 30 ts)))"

text \<open>The object \<open>h\<close> of \<open>buildPrompt\<close>.\<close>

record prompt_health =
  h_sleep :: jsnum
  h_water :: jsnum
  h_steps :: jsnum
  h_breaks :: jsnum
  h_mood :: string

definition prompt_h :: "health \<Rightarrow> prompt_health" where
  "prompt_h hl =
     \<lparr>h_sleep = Number (nullish_num (sleepHours hl) (NNum 0)),
      h_water = Number (nullish_num (waterCups hl) (NNum 0)),
      h_steps = Number (nullish_num (steps hl) (NNum 0)),
      h_breaks = Number (nullish_num (breaksPerHour hl) (NNum 0)),
      h_mood = String (nullish_str (mood hl) (SStr ''unknown''))\<rparr>"

definition health_line :: "prompt_health \<Rightarrow> string" where
  "health_line h =
     ''Sleep: '' @ show_num (h_sleep h) @ ''h, Water: '' @ show_num (h_water h)
       @ '' cups, Steps: '' @ show_num (h_steps h) @ '', Breaks/hour: '' @ show_num (h_breaks h)
       @ '', Mood: '' @ h_mood h"

definition buildPrompt :: "task list \<Rightarrow> health \<Rightarrow> string" where
  "buildPrompt ts hl =
     join [CHR 0x0A]
       [''Here are my current tasks and health metrics.'',
        [],
        ''Tasks:'',
        (if taskLines ts = [] then ''(none)'' else taskLines ts),
        [],
        ''Health:'',
        health_line (prompt_h hl),
        [],
        ''Please produce:'',
        ''1) A short day plan (time-boxed blocks).'',
        ''2) Top 5 task priorities with justifications (impact/effort/urgency).'',
        ''3) 5 habit tweaks that support today's workload (sleep, hydration, steps, breaks).'',
        ''4) 5 quick wins I can do in 10 minutes or less.'',
        ''Use markdown with headings and bullet lists. Be concrete, no fluff.'']"

section \<open>The server: buildFallbackSuggestions\<close>

text \<open>The source file holds the character \<open>?\<close> where its texts have a dash: between the
  title and \<open>do soon\<close>, and in the ranges of the habit and plan texts. The model takes
  the texts as the file holds them and names the separator of the \<open>top\<close> lines.\<close>

definition dash :: string where
  "dash = ''?''"

record suggestions =
  plan :: string
  habits :: "string list"
  quickWins :: "string list"
  top_field :: "string list"

definition incomplete :: "task list \<Rightarrow> task list" where
  "incomplete ts = filter (\<lambda>t. \<not> truthy_bool (task_done t)) ts"

text \<open>The list \<open>prioritized\<close> of \<open>buildFallbackSuggestions\<close> and the lines of \<open>top\<close>.\<close>

definition fallback_prioritized :: "task list \<Rightarrow> task list" where
  "fallback_prioritized ts =
     js_sort (\<lambda>a b. impact b * 2 - effort b - (impact a * 2 - effort a)) (incomplete ts)"

definition top_line :: "task \<Rightarrow> string" where
  "top_line t =
     title t @ '' '' @ dash @ '' do soon (impact '' @ show_int (impact t) @ '', effort ''
       @ show_int (effort t) @ '')''"

text \<open>The four numbers \<open>sleep\<close>, \<open>water\<close>, \<open>steps\<close> and \<open>breaks\<close>.\<close>

definition fallback_numbers :: "health \<Rightarrow> jsnum \<times> jsnum \<times> jsnum \<times> jsnum" where
  "fallback_numbers hl =
     (Number (nullish_num (sleepHours hl) (NNum 0)),
      Number (nullish_num (waterCups hl) (NNum 0)),
      Number (nullish_num (steps hl) (NNum 0)),
      Number (nullish_num (breaksPerHour hl) (NNum 0)))"

definition habit_tips :: "jsnum \<times> jsnum \<times> jsnum \<times> jsnum \<Rightarrow> string list" where
  "habit_tips m =
     (case m of (sleep, water, stp, breaks) \<Rightarrow>
        [if js_less sleep 7 then ''Aim for 7?9h tonight; set a fixed shutdown time.''
         else ''Protect your sleep window; no screens 1h before bed.'',
         if js_less water 8 then ''Place a full bottle on desk; 2 cups by 10am, 4 by 2pm.''
         else ''Maintain hydration cadence: 1 cup per hour during work.'',
         if js_less stp 8000
         then ''Insert two 10-min walks (midday and late afternoon) to hit 8?10k steps.''
         else ''Keep step streak with a brisk 20-min walk post-lunch.'',
         if js_less breaks 2 then ''Use 50/10 focus cycles; micro-stretch each break.''
         else ''Sustain 50/10 cadence; add 2x mobility breaks (AM/PM).''])"

definition filler :: string where
  "filler = ''Inbox sweep: archive or assign 10 emails.''"

function pad_quickWins :: "string list \<Rightarrow> string list" where
  "pad_quickWins ws = (if length ws < 5 then pad_quickWins (ws @ [filler]) else ws)"
  by pat_completeness auto
termination
  by (relation "measure (\<lambda>ws. 5 - length ws)") auto

definition quick_line :: "task \<Rightarrow> string" where
  "quick_line t = ''Start: '' @ title t @ '' (<=10m setup)''"

definition day_plan :: string where
  "day_plan = join [CHR 0x0A]
     [''09:00?11:00 Deep Work: top priority'',
      ''11:00?11:10 Break + hydration'',
      ''11:10?12:30 Deep Work: priority #2'',
      ''12:30?13:15 Lunch + 10-min walk'',
      ''13:15?15:00 Execution: small tasks'',
      ''15:00?15:10 Break + mobility'',
      ''15:10?16:30 Execution: priority #3'',
      ''16:30?17:00 Wrap-up & plan tomorrow'']"

definition buildFallbackSuggestions :: "task list \<Rightarrow> health \<Rightarrow> string option \<Rightarrow> suggestions" where
  "buildFallbackSuggestions ts hl nt =
     \<lparr>plan = day_plan,
      habits = (case nt of None \<Rightarrow> [] | Some n \<Rightarrow> if n \<noteq> [] then [''(Note) '' @ n] else [])
                 @ habit_tips (fallback_numbers hl),
      quickWins = pad_quickWins (map quick_line (take 5 (filter (\<lambda>t. effort t \<le> 2) (incomplete ts)))),
      top_field = map top_line (take 5 (fallback_prioritized ts))\<rparr>"

section \<open>The server: the handler POST\<close>

text \<open>
  What an awaited promise gives: a value, or a rejection with the thrown error's
  \<open>message\<close> (if it has one). The reply of \<open>fetch\<close> holds \<open>res.ok\<close>, the outcome of
  \<open>res.text()\<close> and the outcome of \<open>res.json()\<close> followed by
  \<open>data?.choices?.[0]?.message?.content\<close> (\<open>None\<close> when that is nullish). The request body
  is unparseable (\<open>req.json()\<close> rejects, and the handler takes \<open>{}\<close>) or an object whose
  \<open>tasks\<close> and \<open>health\<close> may be absent or \<open>null\<close> (as they are in a body that is no
  object).
\<close>

datatype 'a outcome = Rejects "string option" | Resolves 'a

record upstream =
  res_ok :: bool
  res_text :: "string outcome"
  res_content :: "string option outcome"

text \<open>
  The value of \<open>body?.tasks ?? []\<close> is not checked either: it is an array, whose elements are
  task objects or \<open>null\<close>, or it is no array (a number, a string, an object). Elements and
  fields of other wrong types are not modelled.
\<close>

datatype tasks_value = Not_array | Array "task option list"

datatype body = Unparseable | Body "tasks_value option" "health option"

text \<open>What the \<open>try\<close> block throws: a TypeError of the engine, or the rejection of an awaited
  promise. \<open>Error500 e\<close> is the response of the \<open>catch\<close> block, with status 500 and the body
  \<open>{ error: e?.message ?? "Unexpected error" }\<close>.\<close>

datatype thrown = TypeError | Rejection "string option"

datatype response =
    Fallback suggestions
  | Openai string
  | Error500 thrown

definition empty_health :: health where
  "empty_health = \<lparr>sleepHours = NUndefined, waterCups = NUndefined, steps = NUndefined,
     breaksPerHour = NUndefined, mood = SUndefined\<rparr>"

fun body_tasks :: "body \<Rightarrow> tasks_value" where
  "body_tasks Unparseable = Array []"
| "body_tasks (Body None h) = Array []"
| "body_tasks (Body (Some v) h) = v"

fun body_health :: "body \<Rightarrow> health" where
  "body_health Unparseable = empty_health"
| "body_health (Body v None) = empty_health"
| "body_health (Body v (Some h)) = h"

text \<open>
  The two calls with the unchecked value. In \<open>buildFallbackSuggestions\<close>, \<open>tasks.filter\<close> is
  not a function when \<open>tasks\<close> is no array, and \<open>t.done\<close> throws on a \<open>null\<close> element. In
  \<open>buildPrompt\<close>, \<open>tasks.slice(0, 30).map\<close> is not a function when \<open>tasks\<close> is no array, and
  \<open>t.title\<close> throws on a \<open>null\<close> among the first 30 elements.
\<close>

definition call_buildFallbackSuggestions ::
  "tasks_value \<Rightarrow> health \<Rightarrow> string option \<Rightarrow> thrown + suggestions" where
  "call_buildFallbackSuggestions v hl nt =
     (case v of
        Not_array \<Rightarrow> Inl TypeError
      | Array items \<Rightarrow>
          (case those items of
             None \<Rightarrow> Inl TypeError
           | Some ts \<Rightarrow> Inr (buildFallbackSuggestions ts hl nt)))"

definition call_buildPrompt :: "tasks_value \<Rightarrow> health \<Rightarrow> thrown + string" where
  "call_buildPrompt v hl =
     (case v of
        Not_array \<Rightarrow> Inl TypeError
      | Array items \<Rightarrow>
          (case those (take 30 items) of
             None \<Rightarrow> Inl TypeError
           | Some ts \<Rightarrow> Inr (buildPrompt ts hl)))"

definition fallback_response :: "tasks_value \<Rightarrow> health \<Rightarrow> string option \<Rightarrow> response" where
  "fallback_response v hl nt =
     (case call_buildFallbackSuggestions v hl nt of
        Inl e \<Rightarrow> Error500 e
      | Inr suggestions \<Rightarrow> Fallback suggestions)"

text \<open>\<open>POST\<close>: \<open>apiKey\<close> is \<open>process.env.OPENAI_API_KEY\<close>, \<open>fetch\<close> maps the key and the
  prompt of the request to what the call to the provider gives.\<close>

definition POST :: "string option \<Rightarrow> (string \<Rightarrow> string \<Rightarrow> upstream outcome) \<Rightarrow> body \<Rightarrow> response" where
  "POST apiKey fetch b =
     (let v = body_tasks b; hl = body_health b in
      case apiKey of
        None \<Rightarrow> fallback_response v hl None
      | Some k \<Rightarrow>
          if k = [] then fallback_response v hl None
          else (case call_buildPrompt v hl of
                  Inl e \<Rightarrow> Error500 e
                | Inr prompt \<Rightarrow>
                    (case fetch k prompt of
                       Rejects m \<Rightarrow> Error500 (Rejection m)
                     | Resolves res \<Rightarrow>
                         if \<not> res_ok res then
                           (case res_text res of
                              Rejects m \<Rightarrow> Error500 (Rejection m)
                            | Resolves txt \<Rightarrow> fallback_response v hl (Some (''AI error: '' @ txt)))
                         else
                           (case res_content res of
                              Rejects m \<Rightarrow> Error500 (Rejection m)
                            | Resolves c \<Rightarrow> Openai (case c of None \<Rightarrow> [] | Some s \<Rightarrow> s)))))"

section \<open>Example data\<close>

definition task_A :: task where
  "task_A = \<lparr>task_id = ''a'', title = ''A'', effort = 1, impact = 5,
     due = Some ''2024-01-01'', task_done = None\<rparr>"

definition task_B :: task where
  "task_B = \<lparr>task_id = ''b'', title = ''B'', effort = 5, impact = 1,
     due = None, task_done = None\<rparr>"

definition task_P :: task where
  "task_P = \<lparr>task_id = ''p'', title = ''P'', effort = 2, impact = 2,
     due = None, task_done = Some False\<rparr>"

definition task_Q :: task where
  "task_Q = \<lparr>task_id = ''q'', title = ''Q'', effort = 2, impact = 2,
     due = Some ''2024-01-01'', task_done = Some False\<rparr>"

definition failing_upstream :: "string \<Rightarrow> string \<Rightarrow> upstream outcome" where
  "failing_upstream k p =
     Resolves \<lparr>res_ok = False, res_text = Resolves ''quota'', res_content = Rejects None\<rparr>"

definition network_down :: "string \<Rightarrow> string \<Rightarrow> upstream outcome" where
  "network_down k p = Rejects (Some ''fetch failed'')"

definition unreadable_upstream :: "string \<Rightarrow> string \<Rightarrow> upstream outcome" where
  "unreadable_upstream k p =
     Resolves \<lparr>res_ok = False, res_text = Rejects (Some ''terminated''), res_content = Rejects None\<rparr>"

definition bool_health :: health where
  "bool_health = \<lparr>sleepHours = NBool True, waterCups = NBool False, steps = NBool True,
     breaksPerHour = NBool False, mood = SUndefined\<rparr>"

definition bad_health :: health where
  "bad_health = \<lparr>sleepHours = NObject, waterCups = NUndefined, steps = NUndefined,
     breaksPerHour = NUndefined, mood = SStr ''great''\<rparr>"

definition object_health :: health where
  "object_health = \<lparr>sleepHours = NObject, waterCups = NObject, steps = NObject,
     breaksPerHour = NObject, mood = SNull\<rparr>"

definition full_health :: health where
  "full_health = \<lparr>sleepHours = NNum 5, waterCups = NNum 10, steps = NNum 3000,
     breaksPerHour = NNum 1, mood = SStr ''ok''\<rparr>"

definition task_X :: task where
  "task_X = \<lparr>task_id = ''x'', title = ''X'', effort = 9, impact = 3,
     due = None, task_done = Some False\<rparr>"

definition filled_form :: client where
  "filled_form = \<lparr>tasks = [], taskTitle = '' write '', taskEffort = 4, taskImpact = 5,
     taskDue = []\<rparr>"

definition example_events :: "event list" where
  "example_events = [SetTaskTitle '' write '', SetTaskEffort 4, SetTaskImpact 5, AddTask ''u1'',
     ToggleDone ''u1'']"

definition thirty_tasks :: "task list" where
  "thirty_tasks = replicate 30 task_A"

definition script_line :: string where
  "script_line = ''<script>alert(1) && \"x\" + 'y'</script>''"

definition list_example :: string where
  "list_example = ''- a\<newline>- b\<newline>\<newline>- c''"

section \<open>Facts about the sort\<close>

lemma insert_by_insort_key:
  assumes "\<And>a b. (cmp a b \<le> 0) = (k a \<le> k b)"
  shows "insert_by cmp x ys = insort_key k x ys"
  by (induction ys) (simp_all add: assms)

lemma js_sort_sort_key:
  assumes "\<And>a b. (cmp a b \<le> 0) = (k a \<le> (k b :: int))"
  shows "js_sort cmp xs = sort_key k xs"
proof -
  have "insert_by cmp = insort_key k"
    using insert_by_insort_key [of cmp k, OF assms] by (intro ext)
  then show ?thesis
    by (simp add: js_sort_def sort_key_def)
qed

lemma prioritized_sort_key: "prioritized ts = sort_key (\<lambda>t. - score t) ts"
  unfolding prioritized_def by (rule js_sort_sort_key) auto

lemma sorted_desc_sort_key:
  "sorted_wrt (\<lambda>a b. k b \<le> (k a :: int)) (sort_key (\<lambda>t. - k t) xs)"
proof -
  have "sorted (map (\<lambda>t. - k t) (sort_key (\<lambda>t. - k t) xs))"
    by (rule sorted_sort_key)
  then show ?thesis
    by (simp add: sorted_map)
qed

lemma stable_desc_sort_key:
  "filter (\<lambda>t. k t = (v :: int)) (sort_key (\<lambda>t. - k t) xs) = filter (\<lambda>t. k t = v) xs"
proof -
  have "filter (\<lambda>t. - k t = - v) (sort_key (\<lambda>t. - k t) xs) = filter (\<lambda>t. - k t = - v) xs"
    by (rule sort_key_stable)
  then show ?thesis by simp
qed

section \<open>The prioritized list of the client\<close>

text \<open>
  Claim C2. The score of a task is \<open>2 * impact - effort\<close>, plus one when the task has a
  (non-empty) due date. The prioritized list holds the same tasks as the task list, is
  in descending order of score, and keeps tasks of equal score in their order in the task
  list. The tasks A (impact 5, effort 1, due set) and B (impact 1, effort 5, no due date)
  score 10 and -3 and are shown in the order A, B, whichever comes first in the task list.
\<close>

theorem prioritized_sorted_stable:
  "score t = 2 * impact t - effort t + (if truthy_str (due t) then 1 else 0)
   \<and> mset (prioritized ts) = mset ts
   \<and> sorted_wrt (\<lambda>a b. score b \<le> score a) (prioritized ts)
   \<and> filter (\<lambda>t. score t = v) (prioritized ts) = filter (\<lambda>t. score t = v) ts
   \<and> score task_A = 10 \<and> score task_B = - 3
   \<and> prioritized [task_A, task_B] = [task_A, task_B]
   \<and> prioritized [task_B, task_A] = [task_A, task_B]"
proof -
  have s: "score task_A = 10" "score task_B = - 3"
    by (simp_all add: score_def task_A_def task_B_def)
  have "prioritized [task_A, task_B] = [task_A, task_B]"
    "prioritized [task_B, task_A] = [task_A, task_B]"
    by (simp_all add: prioritized_def js_sort_def s)
  moreover have "sorted_wrt (\<lambda>a b. score b \<le> score a) (prioritized ts)"
    unfolding prioritized_sort_key by (rule sorted_desc_sort_key)
  moreover have "filter (\<lambda>t. score t = v) (prioritized ts) = filter (\<lambda>t. score t = v) ts"
    unfolding prioritized_sort_key by (rule stable_desc_sort_key)
  ultimately show ?thesis
    by (simp add: s prioritized_sort_key) (simp add: score_def)
qed

section \<open>The fallback generator\<close>

lemma pad_quickWins_replicate: "pad_quickWins ws = ws @ replicate (5 - length ws) filler"
proof (induction ws rule: pad_quickWins.induct)
  case (1 ws)
  show ?case
  proof (cases "length ws < 5")
    case True
    then have "5 - length ws = Suc (5 - length (ws @ [filler]))" by simp
    then have "ws @ replicate (5 - length ws) filler
        = (ws @ [filler]) @ replicate (5 - length (ws @ [filler])) filler"
      by (simp only: replicate_Suc append_assoc append_Cons append_Nil)
    with 1 [OF True] True show ?thesis
      by (subst pad_quickWins.simps) simp
  next
    case False
    then show ?thesis by (subst pad_quickWins.simps) simp
  qed
qed

text \<open>
  Claim C9. Whatever the tasks, the health metrics and the note, \<open>quickWins\<close> has exactly
  five entries: the lines \<open>Start: <title> (<=10m setup)\<close> of the first five incomplete
  tasks of effort at most 2, in the order of the task list, followed by as many copies of
  the filler line as it takes to reach five. With no tasks, \<open>quickWins\<close> is five copies of
  \<open>Inbox sweep: archive or assign 10 emails.\<close> and \<open>top\<close> is empty.
\<close>

theorem quickWins_five:
  "quickWins (buildFallbackSuggestions ts hl nt)
     = map quick_line (take 5 (filter (\<lambda>t. effort t \<le> 2) (incomplete ts)))
       @ replicate (5 - length (take 5 (filter (\<lambda>t. effort t \<le> 2) (incomplete ts)))) filler
   \<and> length (quickWins (buildFallbackSuggestions ts hl nt)) = 5
   \<and> incomplete ts = filter (\<lambda>t. \<not> truthy_bool (task_done t)) ts
   \<and> quick_line t = ''Start: '' @ title t @ '' (<=10m setup)''
   \<and> quickWins (buildFallbackSuggestions [] hl nt)
       = replicate 5 ''Inbox sweep: archive or assign 10 emails.''
   \<and> top_field (buildFallbackSuggestions [] hl nt) = []"
proof -
  have q: "quickWins (buildFallbackSuggestions us hl nt)
      = map quick_line (take 5 (filter (\<lambda>t. effort t \<le> 2) (incomplete us)))
        @ replicate (5 - length (take 5 (filter (\<lambda>t. effort t \<le> 2) (incomplete us)))) filler"
    for us
    unfolding buildFallbackSuggestions_def pad_quickWins_replicate by simp
  have len: "length (quickWins (buildFallbackSuggestions ts hl nt)) = 5"
    unfolding q by simp
  have e: "quickWins (buildFallbackSuggestions [] hl nt)
      = replicate 5 ''Inbox sweep: archive or assign 10 emails.''"
    unfolding q by (simp add: incomplete_def filler_def)
  have t: "top_field (buildFallbackSuggestions [] hl nt) = []"
    by (simp add: buildFallbackSuggestions_def fallback_prioritized_def incomplete_def js_sort_def)
  show ?thesis
    using q [of ts] len e t by (simp only: incomplete_def quick_line_def simp_thms)
qed


lemma fallback_prioritized_sort_key:
  "fallback_prioritized ts = sort_key (\<lambda>t. - (impact t * 2 - effort t)) (incomplete ts)"
  unfolding fallback_prioritized_def by (rule js_sort_sort_key) auto

text \<open>
  Claim C1, as amended. For tasks whose impact and effort are integers in the exact range
  (magnitude at most \<open>2^50\<close>), \<open>top\<close> is computed from the tasks whose done flag is not set,
  in descending order of \<open>impact * 2 - effort\<close> (a due date adds nothing to this score),
  tasks of equal score in their order in the task list; the first five are formatted as
  \<open><title> <dash> do soon (impact <i>, effort <e>)\<close>.
\<close>

theorem top_by_impact_effort:
  "list_all exact_task (incomplete ts) \<longrightarrow>
   top_field (buildFallbackSuggestions ts hl nt) = map top_line (take 5 (fallback_prioritized ts))
   \<and> set (fallback_prioritized ts) = set (incomplete ts)
   \<and> mset (fallback_prioritized ts) = mset (filter (\<lambda>t. \<not> truthy_bool (task_done t)) ts)
   \<and> sorted_wrt (\<lambda>a b. impact b * 2 - effort b \<le> impact a * 2 - effort a) (fallback_prioritized ts)
   \<and> filter (\<lambda>t. impact t * 2 - effort t = v) (fallback_prioritized ts)
       = filter (\<lambda>t. impact t * 2 - effort t = v) (filter (\<lambda>t. \<not> truthy_bool (task_done t)) ts)
   \<and> (\<forall>t \<in> set (incomplete ts).
        top_line t = title t @ '' '' @ dash @ '' do soon (impact '' @ show_int (impact t)
          @ '', effort '' @ show_int (effort t) @ '')'')"
proof -
  have "sorted_wrt (\<lambda>a b. impact b * 2 - effort b \<le> impact a * 2 - effort a) (fallback_prioritized ts)"
    unfolding fallback_prioritized_sort_key by (rule sorted_desc_sort_key)
  moreover have "filter (\<lambda>t. impact t * 2 - effort t = v) (fallback_prioritized ts)
       = filter (\<lambda>t. impact t * 2 - effort t = v) (incomplete ts)"
    unfolding fallback_prioritized_sort_key by (rule stable_desc_sort_key)
  ultimately show ?thesis
    by (simp add: buildFallbackSuggestions_def fallback_prioritized_sort_key incomplete_def
        top_line_def)
qed

theorem top_by_impact_effort_witness:
  "list_all exact_task (incomplete [task_B, task_A])
   \<and> fallback_prioritized [task_B, task_A] = [task_A, task_B]
   \<and> top_field (buildFallbackSuggestions [task_B, task_A] empty_health None)
       = [''A ? do soon (impact 5, effort 1)'', ''B ? do soon (impact 1, effort 5)'']"
proof -
  have i: "incomplete [task_B, task_A] = [task_B, task_A]"
    by (simp add: incomplete_def task_A_def task_B_def)
  have e: "list_all exact_task (incomplete [task_B, task_A])"
    unfolding i by (simp add: exact_task_def exact_number_def task_A_def task_B_def)
  have f: "fallback_prioritized [task_B, task_A] = [task_A, task_B]"
    unfolding fallback_prioritized_def i by (simp add: js_sort_def task_A_def task_B_def)
  have l: "title task_A @ '' '' @ dash @ '' do soon (impact '' @ show_int (impact task_A)
          @ '', effort '' @ show_int (effort task_A) @ '')'' = ''A ? do soon (impact 5, effort 1)''"
    "title task_B @ '' '' @ dash @ '' do soon (impact '' @ show_int (impact task_B)
          @ '', effort '' @ show_int (effort task_B) @ '')'' = ''B ? do soon (impact 1, effort 5)''"
    by (simp_all add: dash_def show_int_def digit_char_def task_A_def task_B_def)
  note t = top_by_impact_effort [of "[task_B, task_A]" empty_health None]
  have "top_line task_A = ''A ? do soon (impact 5, effort 1)''"
    "top_line task_B = ''B ? do soon (impact 1, effort 5)''"
    using t e unfolding i by (simp_all only: l [symmetric]) simp_all
  then show ?thesis
    using t e f by simp
qed

text \<open>
  Claim C1 as stated fails: the order of \<open>top\<close> is not that of the client's score. Of two
  incomplete tasks with impact 2 and effort 2, P without and Q with a due date, the client's
  score ranks Q (3) before P (2), and \<open>top\<close> lists P before Q.
\<close>

theorem top_ignores_due_counterexample:
  "score task_P = 2 \<and> score task_Q = 3
   \<and> top_field (buildFallbackSuggestions [task_P, task_Q] empty_health None)
       = [''P ? do soon (impact 2, effort 2)'', ''Q ? do soon (impact 2, effort 2)'']
   \<and> map top_line (take 5 (prioritized (incomplete [task_P, task_Q])))
       = [''Q ? do soon (impact 2, effort 2)'', ''P ? do soon (impact 2, effort 2)'']
   \<and> top_field (buildFallbackSuggestions [task_P, task_Q] empty_health None)
       \<noteq> map top_line (take 5 (prioritized (incomplete [task_P, task_Q])))"
proof -
  have s: "score task_P = 2" "score task_Q = 3"
    by (simp_all add: score_def task_P_def task_Q_def)
  have i: "incomplete [task_P, task_Q] = [task_P, task_Q]"
    by (simp add: incomplete_def task_P_def task_Q_def)
  have f: "fallback_prioritized [task_P, task_Q] = [task_P, task_Q]"
    unfolding fallback_prioritized_def i by (simp add: js_sort_def task_P_def task_Q_def)
  have p: "prioritized [task_P, task_Q] = [task_Q, task_P]"
    by (simp add: prioritized_def js_sort_def s)
  have l: "top_line task_P = ''P ? do soon (impact 2, effort 2)''"
    "top_line task_Q = ''Q ? do soon (impact 2, effort 2)''"
    by (simp_all add: top_line_def dash_def show_int_def digit_char_def task_P_def task_Q_def)
  show ?thesis
    by (simp add: s buildFallbackSuggestions_def f i p l)
qed

section \<open>The prompt builder\<close>

lemma map_enumerate_nth:
  "map (\<lambda>(i, t). f i t) (enumerate 0 xs) = map (\<lambda>i. f i (xs ! i)) [0..<length xs]"
  by (rule nth_equalityI) (simp_all add: nth_enumerate_eq)

lemma taskLines_take_30: "taskLines (take 30 ts) = taskLines ts"
  by (simp add: taskLines_def)

lemma buildPrompt_take_30: "buildPrompt (take 30 ts) hl = buildPrompt ts hl"
  unfolding buildPrompt_def taskLines_take_30 by (rule refl)

lemma taskLines_nth:
  "taskLines ts = join [CHR 0x0A] (map (\<lambda>i. task_line i (ts ! i)) [0..<min 30 (length ts)])"
proof -
  have "map (\<lambda>(i, t). task_line i t) (enumerate 0 (take 30 ts))
      = map (\<lambda>i. task_line i (take 30 ts ! i)) [0..<length (take 30 ts)]"
    by (rule map_enumerate_nth)
  also have "\<dots> = map (\<lambda>i. task_line i (ts ! i)) [0..<min 30 (length ts)]"
    by (simp add: min.commute)
  finally show ?thesis
    by (simp add: taskLines_def)
qed

lemma join_not_Nil: "xs \<noteq> [] \<Longrightarrow> hd xs \<noteq> [] \<Longrightarrow> join sep xs \<noteq> []"
  by (cases "(sep, xs)" rule: join.cases) simp_all

lemma task_line_not_Nil: "task_line i t \<noteq> []"
  by (simp add: task_line_def del: show_nat.simps)

lemma taskLines_Nil_iff: "(taskLines ts = []) = (ts = [])"
proof (cases ts)
  case Nil
  then show ?thesis by (simp add: taskLines_def)
next
  case (Cons t rest)
  have "taskLines ts
      = join [CHR 0x0A]
          (task_line 0 t # map (\<lambda>(i, t). task_line i t) (enumerate (Suc 0) (take 29 rest)))"
    by (simp add: taskLines_def Cons del: show_nat.simps)
  moreover have "join [CHR 0x0A]
          (task_line 0 t # map (\<lambda>(i, t). task_line i t) (enumerate (Suc 0) (take 29 rest))) \<noteq> []"
    by (rule join_not_Nil) (simp_all add: task_line_not_Nil del: show_nat.simps)
  ultimately show ?thesis
    using Cons by simp
qed

text \<open>
  Claim C10 (for tasks and health numbers in the exact range). The prompt is the fixed
  opening, the task section, the health line and the fixed instructions, joined by line
  feeds. The task section is \<open>(none)\<close> without tasks, and otherwise the lines of the tasks at
  the indices below 30, in the order of the task list; line \<open>i\<close> carries the number
  \<open>i + 1\<close>, the title, impact and effort, the due date if there is one and \<open>marked done\<close> if
  the task is done. Later tasks change nothing: the prompt is the prompt of the first 30
  tasks, tasks added behind 30 tasks leave it as it is, and there is no error result.
\<close>

theorem prompt_first_30:
  "list_all exact_task (take 30 ts) \<and> exact_health hl \<longrightarrow>
     buildPrompt ts hl = buildPrompt (take 30 ts) hl
     \<and> (30 \<le> length ts \<longrightarrow> buildPrompt (ts @ extra) hl = buildPrompt ts hl)
     \<and> buildPrompt ts hl =
         join [CHR 0x0A]
           [''Here are my current tasks and health metrics.'',
            [],
            ''Tasks:'',
            (if ts = [] then ''(none)''
             else join [CHR 0x0A] (map (\<lambda>i. task_line i (ts ! i)) [0..<min 30 (length ts)])),
            [],
            ''Health:'',
            health_line (prompt_h hl),
            [],
            ''Please produce:'',
            ''1) A short day plan (time-boxed blocks).'',
            ''2) Top 5 task priorities with justifications (impact/effort/urgency).'',
            ''3) 5 habit tweaks that support today's workload (sleep, hydration, steps, breaks).'',
            ''4) 5 quick wins I can do in 10 minutes or less.'',
            ''Use markdown with headings and bullet lists. Be concrete, no fluff.'']
     \<and> (\<forall>i < min 30 (length ts).
          task_line i (ts ! i)
            = show_nat (i + 1) @ ''. '' @ title (ts ! i) @ '' (impact '' @ show_int (impact (ts ! i))
              @ ''/5, effort '' @ show_int (effort (ts ! i)) @ ''/5''
              @ (case due (ts ! i) of None \<Rightarrow> []
                 | Some d \<Rightarrow> if d \<noteq> [] then '', due '' @ d else [])
              @ (if truthy_bool (task_done (ts ! i)) then '', marked done'' else [])
              @ '')'')
     \<and> health_line (prompt_h hl)
         = ''Sleep: '' @ show_num (h_sleep (prompt_h hl)) @ ''h, Water: ''
           @ show_num (h_water (prompt_h hl)) @ '' cups, Steps: '' @ show_num (h_steps (prompt_h hl))
           @ '', Breaks/hour: '' @ show_num (h_breaks (prompt_h hl)) @ '', Mood: ''
           @ h_mood (prompt_h hl)"
proof -
  have a: "buildPrompt ts hl = buildPrompt (take 30 ts) hl"
    by (simp only: buildPrompt_take_30)
  have b: "buildPrompt (ts @ extra) hl = buildPrompt ts hl" if "30 \<le> length ts"
  proof -
    have "take 30 (ts @ extra) = take 30 ts" using that by simp
    then have "buildPrompt (take 30 (ts @ extra)) hl = buildPrompt (take 30 ts) hl"
      by (simp only:)
    then show ?thesis by (simp only: buildPrompt_take_30)
  qed
  have c: "(if taskLines ts = [] then ''(none)'' else taskLines ts)
      = (if ts = [] then ''(none)''
         else join [CHR 0x0A] (map (\<lambda>i. task_line i (ts ! i)) [0..<min 30 (length ts)]))"
    unfolding taskLines_Nil_iff using taskLines_nth [of ts] by simp
  have d: "buildPrompt ts hl =
         join [CHR 0x0A]
           [''Here are my current tasks and health metrics.'',
            [],
            ''Tasks:'',
            (if ts = [] then ''(none)''
             else join [CHR 0x0A] (map (\<lambda>i. task_line i (ts ! i)) [0..<min 30 (length ts)])),
            [],
            ''Health:'',
            health_line (prompt_h hl),
            [],
            ''Please produce:'',
            ''1) A short day plan (time-boxed blocks).'',
            ''2) Top 5 task priorities with justifications (impact/effort/urgency).'',
            ''3) 5 habit tweaks that support today's workload (sleep, hydration, steps, breaks).'',
            ''4) 5 quick wins I can do in 10 minutes or less.'',
            ''Use markdown with headings and bullet lists. Be concrete, no fluff.'']"
    unfolding buildPrompt_def c by (rule refl)
  show ?thesis
    using a b d by (simp only: task_line_def health_line_def simp_thms) blast
qed

theorem prompt_first_30_witness:
  "list_all exact_task (take 30 [task_A, task_B]) \<and> exact_health full_health
   \<and> buildPrompt [task_A, task_B] full_health
       = ''Here are my current tasks and health metrics.\<newline>\<newline>Tasks:\<newline>1. A (impact 5/5, effort 1/5, due 2024-01-01)\<newline>2. B (impact 1/5, effort 5/5)\<newline>\<newline>Health:\<newline>Sleep: 5h, Water: 10 cups, Steps: 3000, Breaks/hour: 1, Mood: ok\<newline>\<newline>Please produce:\<newline>1) A short day plan (time-boxed blocks).\<newline>2) Top 5 task priorities with justifications (impact/effort/urgency).\<newline>3) 5 habit tweaks that support today's workload (sleep, hydration, steps, breaks).\<newline>4) 5 quick wins I can do in 10 minutes or less.\<newline>Use markdown with headings and bullet lists. Be concrete, no fluff.''
   \<and> list_all exact_task (take 30 thirty_tasks) \<and> 30 \<le> length thirty_tasks
   \<and> buildPrompt (thirty_tasks @ [task_X]) full_health = buildPrompt thirty_tasks full_health"
proof -
  have e: "list_all exact_task (take 30 [task_A, task_B])" "exact_health full_health"
    by (simp_all add: exact_task_def exact_number_def task_A_def task_B_def exact_health_def
        full_health_def)
  have f: "list_all exact_task (take 30 thirty_tasks)" "30 \<le> length thirty_tasks"
    by (simp_all add: thirty_tasks_def list_all_iff exact_task_def exact_number_def task_A_def)
  have l: "task_line 0 task_A = ''1. A (impact 5/5, effort 1/5, due 2024-01-01)''"
    "task_line (Suc 0) task_B = ''2. B (impact 1/5, effort 5/5)''"
    by (simp_all add: task_line_def show_int_def digit_char_def task_A_def task_B_def)
  have h: "health_line (prompt_h full_health)
      = ''Sleep: 5h, Water: 10 cups, Steps: 3000, Breaks/hour: 1, Mood: ok''"
    by (simp add: health_line_def prompt_h_def full_health_def show_int_def digit_char_def)
  have u: "[0..<min 30 (length [task_A, task_B])] = [0, Suc 0]"
    by (simp add: upt_conv_Cons)
  note p = prompt_first_30 [of "[task_A, task_B]" full_health]
  note q = prompt_first_30 [of thirty_tasks full_health "[task_X]"]
  have 1: "buildPrompt [task_A, task_B] full_health
      = join [CHR 0x0A]
           [''Here are my current tasks and health metrics.'',
            [],
            ''Tasks:'',
            join [CHR 0x0A] [task_line 0 task_A, task_line (Suc 0) task_B],
            [],
            ''Health:'',
            health_line (prompt_h full_health),
            [],
            ''Please produce:'',
            ''1) A short day plan (time-boxed blocks).'',
            ''2) Top 5 task priorities with justifications (impact/effort/urgency).'',
            ''3) 5 habit tweaks that support today's workload (sleep, hydration, steps, breaks).'',
            ''4) 5 quick wins I can do in 10 minutes or less.'',
            ''Use markdown with headings and bullet lists. Be concrete, no fluff.'']"
    using p e unfolding u by simp
  have 2: "buildPrompt (thirty_tasks @ [task_X]) full_health = buildPrompt thirty_tasks full_health"
    using q e f by simp
  show ?thesis
    using e f 2 unfolding 1 l h by simp
qed

section \<open>The handler\<close>

lemma those_map_Some: "those (map Some xs) = Some xs"
  by (induction xs) simp_all

lemma those_None_iff: "(those xs = None) = (None \<in> set xs)"
  by (induction xs) (auto split: option.splits)

lemma call_buildFallbackSuggestions_typed:
  "call_buildFallbackSuggestions (Array (map Some ts)) hl nt
     = Inr (buildFallbackSuggestions ts hl nt)"
  by (simp add: call_buildFallbackSuggestions_def those_map_Some)

lemma call_buildPrompt_typed:
  "call_buildPrompt (Array (map Some ts)) hl = Inr (buildPrompt ts hl)"
proof -
  have "those (take 30 (map Some ts)) = Some (take 30 ts)"
    by (simp only: take_map those_map_Some)
  then show ?thesis
    by (simp add: call_buildPrompt_def buildPrompt_take_30)
qed

lemma call_not_array:
  "call_buildFallbackSuggestions Not_array hl nt = Inl TypeError"
  "call_buildPrompt Not_array hl = Inl TypeError"
  by (simp_all add: call_buildFallbackSuggestions_def call_buildPrompt_def)

text \<open>
  Claim C5, as amended. For a request whose tasks are absent or an array of task objects
  (numbers in the exact range): without a credential (the variable unset or empty) the
  handler answers with the fallback bundle \<open>{ provider: "fallback", suggestions }\<close> computed
  without a note; with a credential, when the call to the provider gives a response whose
  status is not a success and whose text \<open>txt\<close> is read, it answers with the fallback bundle
  computed with the note \<open>AI error: txt\<close>. What throws is surfaced to the caller as the
  error response of status 500: a call to the provider that rejects, a response text that
  cannot be read, a tasks value that is no array, and without a credential an array that
  holds \<open>null\<close>.
\<close>

theorem post_fallback_or_error:
  "(\<not> truthy_str apiKey \<and> body_tasks b = Array (map Some ts) \<and> list_all exact_task ts \<longrightarrow>
      POST apiKey fetch b = Fallback (buildFallbackSuggestions ts (body_health b) None))
   \<and> (apiKey = Some k \<and> k \<noteq> [] \<and> body_tasks b = Array (map Some ts)
        \<and> list_all exact_task ts \<and> exact_health (body_health b)
        \<and> fetch k (buildPrompt ts (body_health b)) = Resolves res
        \<and> \<not> res_ok res \<and> res_text res = Resolves txt \<longrightarrow>
      POST apiKey fetch b
        = Fallback (buildFallbackSuggestions ts (body_health b) (Some (''AI error: '' @ txt))))
   \<and> (apiKey = Some k \<and> k \<noteq> [] \<and> body_tasks b = Array (map Some ts)
        \<and> list_all exact_task ts \<and> exact_health (body_health b)
        \<and> fetch k (buildPrompt ts (body_health b)) = Rejects m \<longrightarrow>
      POST apiKey fetch b = Error500 (Rejection m))
   \<and> (apiKey = Some k \<and> k \<noteq> [] \<and> body_tasks b = Array (map Some ts)
        \<and> list_all exact_task ts \<and> exact_health (body_health b)
        \<and> fetch k (buildPrompt ts (body_health b)) = Resolves res
        \<and> \<not> res_ok res \<and> res_text res = Rejects m \<longrightarrow>
      POST apiKey fetch b = Error500 (Rejection m))
   \<and> (body_tasks b = Not_array \<longrightarrow> POST apiKey fetch b = Error500 TypeError)
   \<and> (\<not> truthy_str apiKey \<and> body_tasks b = Array items \<and> None \<in> set items \<longrightarrow>
      POST apiKey fetch b = Error500 TypeError)"
proof -
  have nokey: "POST apiKey fetch b = fallback_response (body_tasks b) (body_health b) None"
    if "\<not> truthy_str apiKey"
    using that by (cases apiKey) (simp_all add: POST_def)
  have typed: "fallback_response (Array (map Some ts)) hl nt
      = Fallback (buildFallbackSuggestions ts hl nt)" for hl nt
    by (simp add: fallback_response_def call_buildFallbackSuggestions_typed)
  have one: "POST apiKey fetch b = Fallback (buildFallbackSuggestions ts (body_health b) None)"
    if "\<not> truthy_str apiKey" "body_tasks b = Array (map Some ts)"
    using nokey [OF that(1)] by (simp only: that(2) typed)
  have key: "POST apiKey fetch b
      = (case fetch k (buildPrompt ts (body_health b)) of
           Rejects m \<Rightarrow> Error500 (Rejection m)
         | Resolves res \<Rightarrow>
             if \<not> res_ok res then
               (case res_text res of
                  Rejects m \<Rightarrow> Error500 (Rejection m)
                | Resolves txt \<Rightarrow>
                    Fallback (buildFallbackSuggestions ts (body_health b)
                      (Some (''AI error: '' @ txt))))
             else
               (case res_content res of
                  Rejects m \<Rightarrow> Error500 (Rejection m)
                | Resolves c \<Rightarrow> Openai (case c of None \<Rightarrow> [] | Some s \<Rightarrow> s)))"
    if "apiKey = Some k" "k \<noteq> []" "body_tasks b = Array (map Some ts)"
    using that
    by (simp add: POST_def Let_def call_buildPrompt_typed typed split: outcome.splits)
  have two: "POST apiKey fetch b
        = Fallback (buildFallbackSuggestions ts (body_health b) (Some (''AI error: '' @ txt)))"
    if "apiKey = Some k" "k \<noteq> []" "body_tasks b = Array (map Some ts)"
      "fetch k (buildPrompt ts (body_health b)) = Resolves res" "\<not> res_ok res"
      "res_text res = Resolves txt"
    using key [OF that(1,2,3)] that(4,5,6) by simp
  have three: "POST apiKey fetch b = Error500 (Rejection m)"
    if "apiKey = Some k" "k \<noteq> []" "body_tasks b = Array (map Some ts)"
      "fetch k (buildPrompt ts (body_health b)) = Rejects m"
    using key [OF that(1,2,3)] that(4) by simp
  have four: "POST apiKey fetch b = Error500 (Rejection m)"
    if "apiKey = Some k" "k \<noteq> []" "body_tasks b = Array (map Some ts)"
      "fetch k (buildPrompt ts (body_health b)) = Resolves res" "\<not> res_ok res"
      "res_text res = Rejects m"
    using key [OF that(1,2,3)] that(4,5,6) by simp
  have five: "POST apiKey fetch b = Error500 TypeError" if "body_tasks b = Not_array"
    using that
    by (cases apiKey) (simp_all add: POST_def Let_def fallback_response_def call_not_array)
  have six: "POST apiKey fetch b = Error500 TypeError"
    if "\<not> truthy_str apiKey" "body_tasks b = Array items" "None \<in> set items"
  proof -
    from that(3) have "those items = None" by (simp add: those_None_iff)
    then show ?thesis
      using nokey [OF that(1)]
      by (simp add: that(2) fallback_response_def call_buildFallbackSuggestions_def)
  qed
  show ?thesis
    using one two three four five six by blast
qed

theorem post_fallback_or_error_witness:
  "\<not> truthy_str None \<and> list_all exact_task [task_A] \<and> exact_health empty_health
   \<and> POST None failing_upstream (Body (Some (Array [Some task_A])) None)
       = Fallback (buildFallbackSuggestions [task_A] empty_health None)
   \<and> POST (Some ''sk'') failing_upstream (Body (Some (Array [Some task_A])) None)
       = Fallback (buildFallbackSuggestions [task_A] empty_health (Some ''AI error: quota''))
   \<and> POST (Some ''sk'') network_down (Body (Some (Array [Some task_A])) None)
       = Error500 (Rejection (Some ''fetch failed''))
   \<and> POST (Some ''sk'') unreadable_upstream (Body (Some (Array [Some task_A])) None)
       = Error500 (Rejection (Some ''terminated''))
   \<and> POST (Some ''sk'') failing_upstream (Body (Some Not_array) None) = Error500 TypeError
   \<and> POST None failing_upstream (Body (Some (Array [Some task_A, None])) None)
       = Error500 TypeError"
proof -
  have e: "list_all exact_task [task_A]" "exact_health empty_health"
    by (simp_all add: exact_task_def exact_number_def task_A_def exact_health_def empty_health_def)
  note a = post_fallback_or_error [of None "Body (Some (Array [Some task_A])) None" "[task_A]"
      failing_upstream]
  note b = post_fallback_or_error [of "Some ''sk''" "Body (Some (Array [Some task_A])) None"
      "[task_A]" failing_upstream "''sk''"
      "\<lparr>res_ok = False, res_text = Resolves ''quota'', res_content = Rejects None\<rparr>" "''quota''"]
  note c = post_fallback_or_error [of "Some ''sk''" "Body (Some (Array [Some task_A])) None"
      "[task_A]" network_down "''sk''" _ _ "Some ''fetch failed''"]
  note d = post_fallback_or_error [of "Some ''sk''" "Body (Some (Array [Some task_A])) None"
      "[task_A]" unreadable_upstream "''sk''"
      "\<lparr>res_ok = False, res_text = Rejects (Some ''terminated''), res_content = Rejects None\<rparr>"
      _ "Some ''terminated''"]
  note f = post_fallback_or_error [of "Some ''sk''" "Body (Some Not_array) None" _
      failing_upstream]
  note g = post_fallback_or_error [of None "Body (Some (Array [Some task_A, None])) None" _
      failing_upstream _ _ _ _ "[Some task_A, None]"]
  have 1: "POST None failing_upstream (Body (Some (Array [Some task_A])) None)
       = Fallback (buildFallbackSuggestions [task_A] empty_health None)"
    using a e by simp
  have 2: "POST (Some ''sk'') failing_upstream (Body (Some (Array [Some task_A])) None)
       = Fallback (buildFallbackSuggestions [task_A] empty_health (Some ''AI error: quota''))"
    using b e by (simp add: failing_upstream_def)
  have 3: "POST (Some ''sk'') network_down (Body (Some (Array [Some task_A])) None)
       = Error500 (Rejection (Some ''fetch failed''))"
    using c e by (simp add: network_down_def)
  have 4: "POST (Some ''sk'') unreadable_upstream (Body (Some (Array [Some task_A])) None)
       = Error500 (Rejection (Some ''terminated''))"
    using d e by (simp add: unreadable_upstream_def)
  have 5: "POST (Some ''sk'') failing_upstream (Body (Some Not_array) None) = Error500 TypeError"
    using f by simp
  have 6: "POST None failing_upstream (Body (Some (Array [Some task_A, None])) None)
       = Error500 TypeError"
    using g by simp
  show ?thesis
    using e 1 2 3 4 5 6 by simp
qed

text \<open>
  Claim C5 as stated fails. With a credential, a call to the provider that rejects (a
  network error) is answered with status 500, and so is a response of non-success status
  whose text cannot be read. Without a credential, a tasks value that is no array is
  answered with status 500, not with the fallback bundle.
\<close>

theorem post_surfaces_errors_counterexample:
  "POST (Some ''sk'') network_down (Body None None) = Error500 (Rejection (Some ''fetch failed''))
   \<and> POST (Some ''sk'') unreadable_upstream (Body None None)
       = Error500 (Rejection (Some ''terminated''))
   \<and> \<not> truthy_str None
   \<and> POST None failing_upstream (Body (Some Not_array) None) = Error500 TypeError"
  by (simp add: POST_def call_buildPrompt_def call_buildFallbackSuggestions_def
      fallback_response_def network_down_def unreadable_upstream_def)

section \<open>Coercion of the health metrics\<close>

lemma absent_num_zero: "absent_num v \<Longrightarrow> Number (nullish_num v (NNum 0)) = Fin 0"
  by (cases v) simp_all

lemma absent_str_unknown: "absent_str m \<Longrightarrow> String (nullish_str m (SStr d)) = d"
  by (cases m) simp_all

text \<open>
  Claim C3, as amended. The fallback generator and the prompt builder coerce the four
  numeric health fields in the same way. A numeric field that is missing (absent or
  \<open>null\<close>) becomes 0 and a missing mood becomes \<open>unknown\<close>. A value that is present is not
  replaced by a default but converted: a number is kept, \<open>true\<close> and \<open>false\<close> become 1 and 0,
  the empty object \<open>{}\<close> becomes NaN, and a mood string is kept as it is, whatever it says.
  Both functions return a value on every input of their types.
\<close>

theorem missing_health_defaults:
  "fallback_numbers hl
     = (h_sleep (prompt_h hl), h_water (prompt_h hl), h_steps (prompt_h hl), h_breaks (prompt_h hl))
   \<and> (absent_num (sleepHours hl) \<longrightarrow> h_sleep (prompt_h hl) = Fin 0)
   \<and> (absent_num (waterCups hl) \<longrightarrow> h_water (prompt_h hl) = Fin 0)
   \<and> (absent_num (steps hl) \<longrightarrow> h_steps (prompt_h hl) = Fin 0)
   \<and> (absent_num (breaksPerHour hl) \<longrightarrow> h_breaks (prompt_h hl) = Fin 0)
   \<and> (absent_str (mood hl) \<longrightarrow> h_mood (prompt_h hl) = ''unknown'')
   \<and> (sleepHours hl = NNum a \<longrightarrow> h_sleep (prompt_h hl) = Fin a)
   \<and> (waterCups hl = NNum b \<longrightarrow> h_water (prompt_h hl) = Fin b)
   \<and> (steps hl = NNum c \<longrightarrow> h_steps (prompt_h hl) = Fin c)
   \<and> (breaksPerHour hl = NNum d \<longrightarrow> h_breaks (prompt_h hl) = Fin d)
   \<and> (sleepHours hl = NObject \<longrightarrow> h_sleep (prompt_h hl) = NaN)
   \<and> (waterCups hl = NObject \<longrightarrow> h_water (prompt_h hl) = NaN)
   \<and> (steps hl = NObject \<longrightarrow> h_steps (prompt_h hl) = NaN)
   \<and> (breaksPerHour hl = NObject \<longrightarrow> h_breaks (prompt_h hl) = NaN)
   \<and> (sleepHours hl = NBool t \<longrightarrow> h_sleep (prompt_h hl) = Fin (if t then 1 else 0))
   \<and> (waterCups hl = NBool u \<longrightarrow> h_water (prompt_h hl) = Fin (if u then 1 else 0))
   \<and> (steps hl = NBool v \<longrightarrow> h_steps (prompt_h hl) = Fin (if v then 1 else 0))
   \<and> (breaksPerHour hl = NBool w \<longrightarrow> h_breaks (prompt_h hl) = Fin (if w then 1 else 0))
   \<and> (mood hl = SStr s \<longrightarrow> h_mood (prompt_h hl) = s)"
  by (simp add: fallback_numbers_def prompt_h_def absent_num_zero absent_str_unknown)

theorem missing_health_defaults_witness:
  "absent_num (sleepHours empty_health) \<and> absent_num (waterCups empty_health)
   \<and> absent_num (steps empty_health) \<and> absent_num (breaksPerHour empty_health)
   \<and> absent_str (mood empty_health)
   \<and> fallback_numbers empty_health = (Fin 0, Fin 0, Fin 0, Fin 0)
   \<and> health_line (prompt_h empty_health)
       = ''Sleep: 0h, Water: 0 cups, Steps: 0, Breaks/hour: 0, Mood: unknown''
   \<and> fallback_numbers full_health = (Fin 5, Fin 10, Fin 3000, Fin 1)
   \<and> h_mood (prompt_h full_health) = ''ok''
   \<and> fallback_numbers object_health = (NaN, NaN, NaN, NaN)
   \<and> fallback_numbers bool_health = (Fin 1, Fin 0, Fin 1, Fin 0)"
proof -
  have e: "absent_num (sleepHours empty_health)" "absent_num (waterCups empty_health)"
    "absent_num (steps empty_health)" "absent_num (breaksPerHour empty_health)"
    "absent_str (mood empty_health)"
    by (simp_all add: empty_health_def)
  have f: "sleepHours full_health = NNum 5" "waterCups full_health = NNum 10"
    "steps full_health = NNum 3000" "breaksPerHour full_health = NNum 1"
    "mood full_health = SStr ''ok''"
    by (simp_all add: full_health_def)
  have o: "sleepHours object_health = NObject" "waterCups object_health = NObject"
    "steps object_health = NObject" "breaksPerHour object_health = NObject"
    by (simp_all add: object_health_def)
  note d = missing_health_defaults [of empty_health]
  note n = missing_health_defaults [of full_health 5 10 3000 1 _ _ _ _ "''ok''"]
  have t: "sleepHours bool_health = NBool True" "waterCups bool_health = NBool False"
    "steps bool_health = NBool True" "breaksPerHour bool_health = NBool False"
    by (simp_all add: bool_health_def)
  note b = missing_health_defaults [of object_health]
  note c = missing_health_defaults [of bool_health _ _ _ _ True False True False]
  have "prompt_h empty_health
      = \<lparr>h_sleep = Fin 0, h_water = Fin 0, h_steps = Fin 0, h_breaks = Fin 0, h_mood = ''unknown''\<rparr>"
    using d e by (cases "prompt_h empty_health") simp
  then have "health_line (prompt_h empty_health)
       = ''Sleep: 0h, Water: 0 cups, Steps: 0, Breaks/hour: 0, Mood: unknown''"
    by (simp add: health_line_def show_int_def digit_char_def)
  then show ?thesis
    using d n b c e f o t by simp
qed

text \<open>
  Claim C3 as stated fails on a value that is present and invalid: with \<open>sleepHours\<close> the
  object \<open>{}\<close> and the mood \<open>great\<close>, the sleep number is NaN in both functions, not 0, and the
  mood stays \<open>great\<close>; the prompt says \<open>Sleep: NaNh\<close> and \<open>Mood: great\<close>, and the sleep
  habit is the maintenance text, where 0 would give the instruction.
\<close>

theorem invalid_health_counterexample:
  "sleepHours bad_health = NObject \<and> mood bad_health = SStr ''great''
   \<and> h_sleep (prompt_h bad_health) = NaN \<and> h_sleep (prompt_h bad_health) \<noteq> Fin 0
   \<and> fst (fallback_numbers bad_health) = NaN \<and> fst (fallback_numbers bad_health) \<noteq> Fin 0
   \<and> h_mood (prompt_h bad_health) = ''great'' \<and> h_mood (prompt_h bad_health) \<noteq> ''unknown''
   \<and> health_line (prompt_h bad_health)
       = ''Sleep: NaNh, Water: 0 cups, Steps: 0, Breaks/hour: 0, Mood: great''
   \<and> hd (habits (buildFallbackSuggestions [] bad_health None))
       = ''Protect your sleep window; no screens 1h before bed.''"
  by (simp add: bad_health_def prompt_h_def fallback_numbers_def health_line_def show_int_def
      digit_char_def buildFallbackSuggestions_def habit_tips_def)

section \<open>Effort and impact of the stored tasks\<close>

lemma handle_form_ok: "form_ok st \<Longrightarrow> from_range_input e \<Longrightarrow> form_ok (handle st e)"
  by (cases e) (auto simp: form_ok_def addTask_def toggleDone_def in_1_5_def list_all_iff)

lemma foldl_handle_form_ok:
  "form_ok st \<Longrightarrow> list_all from_range_input es \<Longrightarrow> form_ok (foldl handle st es)"
  by (induction es arbitrary: st) (simp_all add: handle_form_ok)

lemma run_form_ok: "list_all from_range_input es \<Longrightarrow> form_ok (run es)"
  unfolding run_def by (rule foldl_handle_form_ok) (simp_all add: form_ok_def initial_client_def)

text \<open>
  Claim C4, as amended. No code clamps effort or impact. \<open>addTask\<close> stores the effort and
  impact of the form as they are (and nothing when the trimmed title is empty) and resets
  the form to 2 and 3, the initial values; \<open>toggleDone\<close> changes neither. So every task
  of the client has effort and impact within 1 to 5 as long as the two range inputs report
  values within 1 to 5. The handler works on the tasks of the request body as they are.
\<close>

theorem client_tasks_in_range:
  "(list_all from_range_input es \<longrightarrow> list_all in_1_5 (tasks (run es)))
   \<and> (trim (taskTitle st) \<noteq> [] \<longrightarrow>
        tasks (addTask u st)
          = tasks st @ [\<lparr>task_id = u, title = trim (taskTitle st), effort = taskEffort st,
                         impact = taskImpact st,
                         due = (if taskDue st = [] then None else Some (taskDue st)),
                         task_done = Some False\<rparr>]
        \<and> taskEffort (addTask u st) = 2 \<and> taskImpact (addTask u st) = 3)
   \<and> (trim (taskTitle st) = [] \<longrightarrow> addTask u st = st)
   \<and> map effort (tasks (toggleDone i st)) = map effort (tasks st)
   \<and> map impact (tasks (toggleDone i st)) = map impact (tasks st)
   \<and> taskEffort initial_client = 2 \<and> taskImpact initial_client = 3 \<and> tasks initial_client = []
   \<and> body_tasks (Body (Some v) h) = v"
proof -
  have "list_all from_range_input es \<longrightarrow> list_all in_1_5 (tasks (run es))"
    using run_form_ok [of es] by (simp add: form_ok_def)
  moreover have "map effort (tasks (toggleDone i st)) = map effort (tasks st)"
    "map impact (tasks (toggleDone i st)) = map impact (tasks st)"
    by (simp_all add: toggleDone_def)
  ultimately show ?thesis
    by (simp add: addTask_def initial_client_def)
qed

theorem client_tasks_in_range_witness:
  "list_all from_range_input example_events
   \<and> tasks (run example_events)
       = [\<lparr>task_id = ''u1'', title = ''write'', effort = 4, impact = 5, due = None,
           task_done = Some True\<rparr>]
   \<and> list_all in_1_5 (tasks (run example_events))
   \<and> trim (taskTitle filled_form) \<noteq> []
   \<and> tasks (addTask ''u1'' filled_form)
       = [\<lparr>task_id = ''u1'', title = ''write'', effort = 4, impact = 5, due = None,
           task_done = Some False\<rparr>]
   \<and> trim (taskTitle initial_client) = [] \<and> addTask ''u1'' initial_client = initial_client"
proof -
  have t: "trim '' write '' = ''write''"
    by (simp add: trim_def is_space_def)
  have e: "list_all from_range_input example_events"
    by (simp add: example_events_def)
  have r: "tasks (run example_events)
       = [\<lparr>task_id = ''u1'', title = ''write'', effort = 4, impact = 5, due = None,
           task_done = Some True\<rparr>]"
    by (simp add: example_events_def run_def initial_client_def addTask_def toggleDone_def t)
  have i: "trim (taskTitle initial_client) = []"
    by (simp add: initial_client_def trim_def)
  show ?thesis
    using client_tasks_in_range [of example_events filled_form "''u1''"]
      client_tasks_in_range [of example_events initial_client "''u1''"] e r i
    by (simp add: filled_form_def t)
qed

text \<open>
  Claim C4 as stated fails for the handler: a posted task of effort 9 is processed with
  effort 9, by the fallback generator (without a credential) and by the prompt builder.
\<close>

theorem post_no_clamp_counterexample:
  "\<not> in_1_5 task_X
   \<and> POST None failing_upstream (Body (Some (Array [Some task_X])) None)
       = Fallback (buildFallbackSuggestions [task_X] empty_health None)
   \<and> top_field (buildFallbackSuggestions [task_X] empty_health None)
       = [''X ? do soon (impact 3, effort 9)'']
   \<and> taskLines [task_X] = ''1. X (impact 3/5, effort 9/5)''"
proof -
  have a: "\<not> in_1_5 task_X"
    by (simp add: in_1_5_def task_X_def)
  have b: "POST None failing_upstream (Body (Some (Array [Some task_X])) None)
       = Fallback (buildFallbackSuggestions [task_X] empty_health None)"
    by (simp add: POST_def fallback_response_def call_buildFallbackSuggestions_def)
  have f: "fallback_prioritized [task_X] = [task_X]"
    by (simp add: fallback_prioritized_def incomplete_def js_sort_def task_X_def)
  have l: "top_line task_X = ''X ? do soon (impact 3, effort 9)''"
    by (simp add: top_line_def dash_def show_int_def digit_char_def task_X_def)
  have c: "top_field (buildFallbackSuggestions [task_X] empty_health None)
       = [''X ? do soon (impact 3, effort 9)'']"
    by (simp add: buildFallbackSuggestions_def f l)
  have d: "task_line 0 task_X = ''1. X (impact 3/5, effort 9/5)''"
    by (simp add: task_line_def show_int_def digit_char_def task_X_def)
  have e: "taskLines [task_X] = ''1. X (impact 3/5, effort 9/5)''"
    by (simp add: taskLines_def d)
  show ?thesis
    using a b c e by (simp only: simp_thms)
qed

section \<open>The markdown renderer\<close>

lemma replaceAll_append: "replaceAll (xs @ ys) p r = replaceAll xs p r @ replaceAll ys p r"
  by (simp add: replaceAll_def)

lemma escapeHtml_append: "escapeHtml (xs @ ys) = escapeHtml xs @ escapeHtml ys"
  by (simp add: escapeHtml_def replaceAll_append)

lemma escapeHtml_Nil: "escapeHtml [] = []"
  by (simp add: escapeHtml_def replaceAll_def)

lemma escapeHtml_single: "escapeHtml [c] = entity_of c"
  by (simp add: escapeHtml_def replaceAll_def entity_of_def)

lemma escapeHtml_entities: "escapeHtml s = concat (map entity_of s)"
proof (induction s)
  case Nil
  show ?case by (simp add: escapeHtml_Nil)
next
  case (Cons c s)
  have "escapeHtml (c # s) = escapeHtml ([c] @ s)" by simp
  also have "\<dots> = entity_of c @ escapeHtml s"
    by (simp only: escapeHtml_append escapeHtml_single)
  finally show ?case by (simp add: Cons.IH)
qed

lemma entity_of_plain:
  "CHR ''<'' \<notin> set (entity_of c) \<and> CHR ''>'' \<notin> set (entity_of c)
   \<and> CHR 0x22 \<notin> set (entity_of c) \<and> CHR 0x27 \<notin> set (entity_of c)"
  by (simp add: entity_of_def)

lemma escapeHtml_plain:
  "CHR ''<'' \<notin> set (escapeHtml s) \<and> CHR ''>'' \<notin> set (escapeHtml s)
   \<and> CHR 0x22 \<notin> set (escapeHtml s) \<and> CHR 0x27 \<notin> set (escapeHtml s)"
  unfolding escapeHtml_entities using entity_of_plain by auto

lemma tags_only_tl: "tags_only (a # xs) \<Longrightarrow> tags_only xs"
  by (cases xs) simp_all

lemma tags_only_append: "tags_only xs \<Longrightarrow> tags_only ys \<Longrightarrow> tags_only (xs @ ys)"
proof (induction xs rule: tags_only.induct)
  case 1
  then show ?case by simp
next
  case (2 a)
  then show ?case by (cases ys) simp_all
next
  case (3 a b r)
  then show ?case by simp
qed

lemma tags_only_plain: "CHR ''<'' \<notin> set s \<Longrightarrow> tags_only s"
  by (induction s rule: tags_only.induct) auto

lemma tags_only_concat: "list_all tags_only fs \<Longrightarrow> tags_only (concat fs)"
  by (induction fs) (simp_all add: tags_only_append)

lemma tags_only_escapeHtml: "tags_only (escapeHtml s)"
  by (rule tags_only_plain) (simp add: escapeHtml_plain)

lemma tags_only_wrapped:
  "tags_only a \<Longrightarrow> tags_only b \<Longrightarrow> tags_only (a @ escapeHtml s @ b)"
  by (intro tags_only_append tags_only_escapeHtml)

lemma tags_only_render_line: "tags_only (render_line l)"
proof -
  have ifI: "tags_only a \<Longrightarrow> tags_only b \<Longrightarrow> tags_only (if c then a else b)" for a b c
    by simp
  have h3: "tags_only (''<h3>'' @ escapeHtml s @ ''</h3>'')" for s
    by (rule tags_only_wrapped) simp_all
  have h2: "tags_only (''<h2>'' @ escapeHtml s @ ''</h2>'')" for s
    by (rule tags_only_wrapped) simp_all
  have h1: "tags_only (''<h1>'' @ escapeHtml s @ ''</h1>'')" for s
    by (rule tags_only_wrapped) simp_all
  have li: "tags_only (''<li>'' @ escapeHtml s @ ''</li>'')" for s
    by (rule tags_only_wrapped) simp_all
  have p: "tags_only (''<p>'' @ escapeHtml s @ ''</p>'')" for s
    by (rule tags_only_wrapped) simp_all
  have br: "tags_only ''<br/>''"
    by simp
  show ?thesis
    unfolding render_line_def by (intro ifI h3 h2 h1 li p br)
qed

lemma tags_only_wrap_ul:
  assumes "list_all tags_only b"
  shows "list_all tags_only (wrap_ul b)"
proof -
  have "tags_only ''<ul>''" "tags_only ''</ul>''" by simp_all
  with assms have "tags_only (''<ul>'' @ concat b @ ''</ul>'')"
    by (intro tags_only_append tags_only_concat)
  then show ?thesis
    by (simp add: wrap_ul_def)
qed

lemma tags_only_group_items:
  "list_all tags_only b \<Longrightarrow> list_all tags_only fs \<Longrightarrow> list_all tags_only (group_items b fs)"
  by (induction fs arbitrary: b) (simp_all add: tags_only_wrap_ul)

lemma tags_only_no_script: "tags_only (ps @ CHR ''<'' # CHR ''s'' # r) \<Longrightarrow> False"
proof (induction ps)
  case Nil
  then show ?case by simp
next
  case (Cons a ps)
  from Cons.prems have "tags_only (ps @ CHR ''<'' # CHR ''s'' # r)"
    using tags_only_tl by simp
  then show ?case by (rule Cons.IH)
qed

lemma tags_only_not_sublist: "tags_only s \<Longrightarrow> \<not> sublist ''<script>'' s"
proof
  assume t: "tags_only s" and "sublist ''<script>'' s"
  then obtain ps ss where "s = ps @ ''<script>'' @ ss"
    by (auto simp: sublist_def)
  then have "s = ps @ CHR ''<'' # CHR ''s'' # (''cript>'' @ ss)" by simp
  with t show False using tags_only_no_script by simp
qed

lemma flush_wrap_ul: "flush (m, b) = (m @ wrap_ul b, [])"
  by (simp add: flush_def wrap_ul_def)

lemma merge_step_wrap_ul:
  "merge_step (m, b) f
     = (if startsWith f ''<li>'' then (m, b @ [f]) else (m @ wrap_ul b @ [f], []))"
  by (simp add: merge_step_def flush_wrap_ul)

lemma merge_loop_group_items:
  "fst (flush (foldl merge_step (m, b) fs)) = m @ group_items b fs"
proof (induction fs arbitrary: m b)
  case Nil
  show ?case by (simp add: flush_wrap_ul)
next
  case (Cons f fs)
  show ?case
    by (simp add: merge_step_wrap_ul Cons.IH)
qed

lemma merge_fragments_group_items: "merge_fragments out = group_items [] out"
  by (simp add: merge_fragments_def merge_loop_group_items)

lemma is_li_render_line: "startsWith (render_line l) ''<li>'' = startsWith l ''- ''"
  by (cases l rule: split_lines.cases) (auto simp: render_line_def startsWith_def)

lemma Markdown_tags_only: "tags_only (Markdown content)"
proof -
  have "list_all tags_only (map render_line (split_lines content))"
    by (simp add: list_all_iff tags_only_render_line)
  then have "list_all tags_only (group_items [] (map render_line (split_lines content)))"
    by (intro tags_only_group_items) simp_all
  then show ?thesis
    unfolding Markdown_def html_of_lines_def merge_fragments_group_items
    by (rule tags_only_concat)
qed

lemma group_items_Nil_plain:
  "\<not> startsWith f ''<li>'' \<Longrightarrow> group_items [] (f # fs) = f # group_items [] fs"
  by (simp add: wrap_ul_def)

lemma Markdown_script_line:
  "Markdown script_line
     = ''<p>&lt;script&gt;alert(1) &amp;&amp; &quot;x&quot; + &#039;y&#039;&lt;/script&gt;</p>''"
proof -
  have s: "split_lines script_line = [script_line]"
    by (simp add: script_line_def cons_first_def)
  have e: "escapeHtml script_line
      = ''&lt;script&gt;alert(1) &amp;&amp; &quot;x&quot; + &#039;y&#039;&lt;/script&gt;''"
    by (simp add: script_line_def escapeHtml_def replaceAll_def)
  have t: "trim script_line \<noteq> []"
    by (simp add: script_line_def trim_def is_space_def)
  have r: "render_line script_line = ''<p>'' @ escapeHtml script_line @ ''</p>''"
    using t by (simp add: render_line_def startsWith_def) (simp add: script_line_def)
  have "\<not> startsWith (render_line script_line) ''<li>''"
    unfolding is_li_render_line by (simp add: startsWith_def script_line_def)
  then have "Markdown script_line = render_line script_line"
    by (simp add: Markdown_def html_of_lines_def merge_fragments_group_items s
        group_items_Nil_plain wrap_ul_def)
  then show ?thesis
    by (simp add: r e)
qed

text \<open>
  Claim C6. The five replacements of \<open>escapeHtml\<close>, done one after the other, give the
  text in which every character is replaced once by its entity (\<open>&\<close> by \<open>&amp;\<close>, \<open><\<close> by
  \<open>&lt;\<close>, \<open>>\<close> by \<open>&gt;\<close>, the double quote by \<open>&quot;\<close>, the single quote by \<open>&#039;\<close>)
  and every other character is kept: an entity is not escaped again and no character is
  missed. The renderer escapes the text of a line before it wraps it in the tag. No output
  of the renderer contains \<open><script>\<close>, whatever the input; a line with a script element
  and quotes comes out as a paragraph of entities.
\<close>

theorem escapeHtml_once:
  "escapeHtml s = concat (map entity_of s)
   \<and> entity_of c =
       (if c = CHR ''&'' then ''&amp;''
        else if c = CHR ''<'' then ''&lt;''
        else if c = CHR ''>'' then ''&gt;''
        else if c = CHR 0x22 then ''&quot;''
        else if c = CHR 0x27 then ''&#039;''
        else [c])
   \<and> render_line l =
       (if startsWith l ''### '' then ''<h3>'' @ concat (map entity_of (drop 4 l)) @ ''</h3>''
        else if startsWith l ''## '' then ''<h2>'' @ concat (map entity_of (drop 3 l)) @ ''</h2>''
        else if startsWith l ''# '' then ''<h1>'' @ concat (map entity_of (drop 2 l)) @ ''</h1>''
        else if startsWith l ''- '' then ''<li>'' @ concat (map entity_of (drop 2 l)) @ ''</li>''
        else if trim l = [] then ''<br/>''
        else ''<p>'' @ concat (map entity_of l) @ ''</p>'')
   \<and> \<not> sublist ''<script>'' (Markdown content)
   \<and> Markdown script_line
       = ''<p>&lt;script&gt;alert(1) &amp;&amp; &quot;x&quot; + &#039;y&#039;&lt;/script&gt;</p>''"
proof -
  have "\<not> sublist ''<script>'' (Markdown content)"
    using Markdown_tags_only by (rule tags_only_not_sublist)
  moreover have "render_line l =
       (if startsWith l ''### '' then ''<h3>'' @ concat (map entity_of (drop 4 l)) @ ''</h3>''
        else if startsWith l ''## '' then ''<h2>'' @ concat (map entity_of (drop 3 l)) @ ''</h2>''
        else if startsWith l ''# '' then ''<h1>'' @ concat (map entity_of (drop 2 l)) @ ''</h1>''
        else if startsWith l ''- '' then ''<li>'' @ concat (map entity_of (drop 2 l)) @ ''</li>''
        else if trim l = [] then ''<br/>''
        else ''<p>'' @ concat (map entity_of l) @ ''</p>'')"
    unfolding render_line_def escapeHtml_entities by (rule refl)
  ultimately show ?thesis
    using escapeHtml_entities [of s] Markdown_script_line
    by (simp only: entity_of_def simp_thms)
qed

lemma group_items_run:
  "list_all (\<lambda>f. startsWith f ''<li>'') fs \<Longrightarrow> group_items b (fs @ rest) = group_items (b @ fs) rest"
  by (induction fs arbitrary: b) simp_all

lemma group_items_break:
  "\<not> startsWith n ''<li>'' \<Longrightarrow>
     group_items b (xs @ n # rest) = group_items b (xs @ [n]) @ group_items [] rest"
  by (induction xs arbitrary: b) (simp_all add: wrap_ul_def)

lemma html_of_lines_Nil: "html_of_lines [] = []"
  by (simp add: html_of_lines_def merge_fragments_group_items wrap_ul_def)

lemma html_of_lines_split:
  assumes "pre = [] \<or> \<not> startsWith (last pre) ''- ''"
  shows "html_of_lines (pre @ rest) = html_of_lines pre @ html_of_lines rest"
proof (cases "pre = []")
  case True
  then show ?thesis by (simp add: html_of_lines_Nil)
next
  case False
  with assms have n: "\<not> startsWith (render_line (last pre)) ''<li>''"
    by (simp add: is_li_render_line)
  from False have p: "pre = butlast pre @ [last pre]" by simp
  have a: "map render_line (pre @ rest)
      = map render_line (butlast pre) @ render_line (last pre) # map render_line rest"
    by (subst p) simp
  have b: "map render_line pre = map render_line (butlast pre) @ [render_line (last pre)]"
    by (subst p) simp
  have "group_items [] (map render_line (pre @ rest))
      = group_items [] (map render_line pre) @ group_items [] (map render_line rest)"
    unfolding a b by (rule group_items_break [OF n])
  then show ?thesis
    by (simp only: html_of_lines_def merge_fragments_group_items concat_append)
qed

lemma html_of_lines_run:
  assumes "items \<noteq> []" and "list_all (\<lambda>l. startsWith l ''- '') items"
    and "post = [] \<or> \<not> startsWith (hd post) ''- ''"
  shows "html_of_lines (items @ post)
    = ''<ul>'' @ concat (map render_line items) @ ''</ul>'' @ html_of_lines post"
proof -
  have li: "list_all (\<lambda>f. startsWith f ''<li>'') (map render_line items)"
    using assms(2) by (simp add: list_all_iff is_li_render_line)
  have w: "wrap_ul (map render_line items) = [''<ul>'' @ concat (map render_line items) @ ''</ul>'']"
    using assms(1) by (simp add: wrap_ul_def)
  have g: "group_items [] (map render_line (items @ post))
      = group_items (map render_line items) (map render_line post)"
    using group_items_run [OF li, of "[]"] by simp
  show ?thesis
  proof (cases post)
    case Nil
    have "group_items [] (map render_line items) = wrap_ul (map render_line items)"
      using g unfolding Nil by simp
    then have "html_of_lines items = ''<ul>'' @ concat (map render_line items) @ ''</ul>''"
      unfolding html_of_lines_def merge_fragments_group_items w by simp
    then show ?thesis
      unfolding Nil html_of_lines_Nil by simp
  next
    case (Cons n rest)
    with assms(3) have n: "\<not> startsWith (render_line n) ''<li>''"
      by (simp add: is_li_render_line)
    have h: "html_of_lines (items @ post)
        = concat (group_items (map render_line items) (map render_line post))"
      unfolding html_of_lines_def merge_fragments_group_items g by (rule refl)
    have a: "group_items (map render_line items) (map render_line post)
        = wrap_ul (map render_line items) @ render_line n # group_items [] (map render_line rest)"
      using n by (simp add: Cons)
    have b: "group_items [] (map render_line post)
        = render_line n # group_items [] (map render_line rest)"
      using n by (simp add: Cons wrap_ul_def)
    have "html_of_lines post = render_line n @ concat (group_items [] (map render_line rest))"
      unfolding html_of_lines_def merge_fragments_group_items b by simp
    then show ?thesis
      unfolding h a w by simp
  qed
qed

lemma html_of_lines_plain:
  "list_all (\<lambda>l. \<not> startsWith l ''- '') ls \<Longrightarrow> html_of_lines ls = concat (map render_line ls)"
proof -
  have "list_all (\<lambda>f. \<not> startsWith f ''<li>'') fs \<Longrightarrow> group_items [] fs = fs" for fs
    by (induction fs) (simp_all add: wrap_ul_def)
  then show "list_all (\<lambda>l. \<not> startsWith l ''- '') ls \<Longrightarrow> ?thesis"
    by (simp add: html_of_lines_def merge_fragments_group_items list_all_iff is_li_render_line)
qed

lemma render_list_line:
  "startsWith l ''- '' \<Longrightarrow> render_line l = ''<li>'' @ escapeHtml (drop 2 l) @ ''</li>''"
  by (cases l rule: split_lines.cases) (auto simp: render_line_def startsWith_def)

lemma render_list_lines:
  "list_all (\<lambda>l. startsWith l ''- '') items \<Longrightarrow>
     map render_line items = map (\<lambda>l. ''<li>'' @ escapeHtml (drop 2 l) @ ''</li>'') items"
  by (induction items) (simp_all add: render_list_line del: append.simps)

text \<open>
  Claim C7. A maximal run of lines that start with \<open>- \<close> (the line before it, if any, and
  the line after it, if any, do not) is rendered as one \<open><ul>\<close> element that wraps the items
  of exactly these lines, between the renderings of what comes before and after. Lines
  without list lines are rendered without any list element. Two runs with a line between
  them that does not start with \<open>- \<close> (a blank line included) give two lists, with the
  fragment of that line between them.
\<close>

theorem list_runs_wrapped:
  "((pre = [] \<or> \<not> startsWith (last pre) ''- '') \<and> items \<noteq> []
      \<and> list_all (\<lambda>l. startsWith l ''- '') items
      \<and> (post = [] \<or> \<not> startsWith (hd post) ''- '') \<longrightarrow>
      html_of_lines (pre @ items @ post)
        = html_of_lines pre
          @ ''<ul>'' @ concat (map (\<lambda>l. ''<li>'' @ escapeHtml (drop 2 l) @ ''</li>'') items) @ ''</ul>''
          @ html_of_lines post)
   \<and> (list_all (\<lambda>l. \<not> startsWith l ''- '') ls \<longrightarrow>
        html_of_lines ls = concat (map render_line ls))
   \<and> (r1 \<noteq> [] \<and> list_all (\<lambda>l. startsWith l ''- '') r1
        \<and> r2 \<noteq> [] \<and> list_all (\<lambda>l. startsWith l ''- '') r2
        \<and> \<not> startsWith n ''- '' \<longrightarrow>
        html_of_lines (r1 @ [n] @ r2)
          = ''<ul>'' @ concat (map (\<lambda>l. ''<li>'' @ escapeHtml (drop 2 l) @ ''</li>'') r1) @ ''</ul>''
            @ render_line n
            @ ''<ul>'' @ concat (map (\<lambda>l. ''<li>'' @ escapeHtml (drop 2 l) @ ''</li>'') r2) @ ''</ul>'')
   \<and> Markdown content = html_of_lines (split_lines content)"
proof -
  have one: "html_of_lines (pre @ items @ post)
        = html_of_lines pre
          @ ''<ul>'' @ concat (map (\<lambda>l. ''<li>'' @ escapeHtml (drop 2 l) @ ''</li>'') items) @ ''</ul>''
          @ html_of_lines post"
    if "pre = [] \<or> \<not> startsWith (last pre) ''- ''" and "items \<noteq> []"
      and "list_all (\<lambda>l. startsWith l ''- '') items"
      and "post = [] \<or> \<not> startsWith (hd post) ''- ''"
    for pre items post
  proof -
    have "html_of_lines (pre @ items @ post) = html_of_lines pre @ html_of_lines (items @ post)"
      using that(1) by (rule html_of_lines_split)
    also have "html_of_lines (items @ post)
        = ''<ul>'' @ concat (map render_line items) @ ''</ul>'' @ html_of_lines post"
      using that(2,3,4) by (rule html_of_lines_run)
    finally show ?thesis
      by (simp only: render_list_lines [OF that(3)])
  qed
  have two: "html_of_lines (r1 @ [n] @ r2)
          = ''<ul>'' @ concat (map (\<lambda>l. ''<li>'' @ escapeHtml (drop 2 l) @ ''</li>'') r1) @ ''</ul>''
            @ render_line n
            @ ''<ul>'' @ concat (map (\<lambda>l. ''<li>'' @ escapeHtml (drop 2 l) @ ''</li>'') r2) @ ''</ul>''"
    if "r1 \<noteq> []" and "list_all (\<lambda>l. startsWith l ''- '') r1" and "r2 \<noteq> []"
      and "list_all (\<lambda>l. startsWith l ''- '') r2" and "\<not> startsWith n ''- ''"
  proof -
    have a: "html_of_lines (r1 @ [n] @ r2)
        = ''<ul>'' @ concat (map (\<lambda>l. ''<li>'' @ escapeHtml (drop 2 l) @ ''</li>'') r1) @ ''</ul>''
          @ html_of_lines ([n] @ r2)"
      using one [of "[]" r1 "[n] @ r2"] that by (simp add: html_of_lines_Nil)
    have b: "html_of_lines ([n] @ r2 @ [])
        = html_of_lines [n]
          @ ''<ul>'' @ concat (map (\<lambda>l. ''<li>'' @ escapeHtml (drop 2 l) @ ''</li>'') r2) @ ''</ul>''
          @ html_of_lines []"
      using that by (intro one) simp_all
    have c: "html_of_lines [n] = render_line n"
      using html_of_lines_plain [of "[n]"] that by simp
    show ?thesis
      using a b by (simp add: c html_of_lines_Nil)
  qed
  show ?thesis
    using one [of pre items post] two html_of_lines_plain [of ls]
    by (simp only: Markdown_def simp_thms) blast
qed

theorem list_runs_wrapped_witness:
  "startsWith ''- a'' ''- '' \<and> startsWith ''- b'' ''- '' \<and> startsWith ''- c'' ''- ''
   \<and> \<not> startsWith ''# T'' ''- '' \<and> \<not> startsWith ''p'' ''- '' \<and> \<not> startsWith [] ''- ''
   \<and> html_of_lines [''# T'', ''p''] = ''<h1>T</h1><p>p</p>''
   \<and> html_of_lines [''# T'', ''- a'', ''p''] = ''<h1>T</h1><ul><li>a</li></ul><p>p</p>''
   \<and> split_lines list_example = [''- a'', ''- b'', [], ''- c'']
   \<and> Markdown list_example = ''<ul><li>a</li><li>b</li></ul><br/><ul><li>c</li></ul>''"
proof -
  have sw: "startsWith ''- a'' ''- ''" "startsWith ''- b'' ''- ''" "startsWith ''- c'' ''- ''"
    "\<not> startsWith ''# T'' ''- ''" "\<not> startsWith ''p'' ''- ''" "\<not> startsWith [] ''- ''"
    by (simp_all add: startsWith_def)
  have rl: "render_line ''# T'' = ''<h1>T</h1>''" "render_line ''p'' = ''<p>p</p>''"
    "render_line [] = ''<br/>''"
    by (simp_all add: render_line_def startsWith_def escapeHtml_def replaceAll_def trim_def
        is_space_def)
  have es: "escapeHtml ''a'' = ''a''" "escapeHtml ''b'' = ''b''" "escapeHtml ''c'' = ''c''"
    by (simp_all add: escapeHtml_def replaceAll_def)
  have sp: "split_lines list_example = [''- a'', ''- b'', [], ''- c'']"
    by (simp add: list_example_def cons_first_def)
  note t = list_runs_wrapped [of "[''# T'']" "[''- a'']" "[''p'']" "[''# T'', ''p'']"
      "[''- a'', ''- b'']" "[''- c'']" "[]" list_example]
  note h = list_runs_wrapped [of "[]" "[]" "[]" "[''# T'']" "[]" "[]" "[]" "[]"]
  note p = list_runs_wrapped [of "[]" "[]" "[]" "[''p'']" "[]" "[]" "[]" "[]"]
  have a: "html_of_lines [''# T''] = ''<h1>T</h1>''"
    using h sw(4) by (simp add: rl)
  have b: "html_of_lines [''p''] = ''<p>p</p>''"
    using p sw(5) by (simp add: rl)
  have c: "html_of_lines [''# T'', ''p''] = ''<h1>T</h1><p>p</p>''"
    using t sw(4,5) by (simp add: rl)
  have d: "html_of_lines ([''# T''] @ [''- a''] @ [''p'']) = ''<h1>T</h1><ul><li>a</li></ul><p>p</p>''"
    using t sw(1,4,5) by (simp add: a b es)
  have e: "html_of_lines ([''- a'', ''- b''] @ [[]] @ [''- c''])
      = ''<ul><li>a</li><li>b</li></ul><br/><ul><li>c</li></ul>''"
    using t sw(1,2,3,6) by (simp add: rl es)
  have f: "Markdown list_example = ''<ul><li>a</li><li>b</li></ul><br/><ul><li>c</li></ul>''"
    using t e by (simp add: sp)
  show ?thesis
    using sw c d sp f by simp
qed

end
